theory Spec2Isabelle
  imports Main "HOL-Library.Sublist"
begin

section \<open>Errors and the Remote API Gateway\<close>

text \<open>
  Go errors of package \<open>bastion\<close>, as values. Every \<open>fmt.Errorf\<close>/\<open>errors.New\<close> of the
  source whose verbs are all \<open>%s\<close> is an \<open>ErrorMsg\<close> carrying the formatted text.
  \<^item> \<open>ExternalError e\<close>: an error returned by a callee outside the package
    (\<open>c.newRequest\<close>, \<open>x509.ParseCertificate\<close>) and passed on unchanged;
  \<^item> \<open>StatusError p code body\<close>: \<open>fmt.Errorf(p + ": %d with body:\n%s", code, body)\<close>;
  \<^item> \<open>WrappedError p e\<close>: \<open>fmt.Errorf(p + ": %w", err)\<close>;
  \<^item> \<open>NilPointerPanic\<close>: the runtime panic of a field read through a nil pointer.
\<close>

datatype error =
    ExternalError string
  | ErrorMsg string
  | StatusError string int string
  | WrappedError string string
  | NilPointerPanic

datatype httpMethod = MethodGet | MethodPost | MethodPut | MethodDelete

text \<open>\<open>type jsonDeviceService struct\<close>; a \<open>*[]string\<close> is an optional list (\<open>None\<close> is nil).\<close>

record jsonDeviceService =
  Port :: int
  ID :: string
  ConnectionPolicy :: string
  Protocol :: string
  ServiceName :: string
  GlobalDomains :: "string list option"
  SubProtocols :: "string list option"

text \<open>\<open>type jsonConfigX509 struct\<close>.\<close>

record jsonConfigX509 =
  CaCertificate :: string
  ServerPublicKey :: string
  ServerPrivateKey :: string
  Enable :: bool
  Default :: bool

text \<open>The zero values that \<open>var result T\<close> declares.\<close>

definition zeroDeviceService :: jsonDeviceService where
  "zeroDeviceService =
     \<lparr>Port = 0, ID = [], ConnectionPolicy = [], Protocol = [], ServiceName = [],
      GlobalDomains = None, SubProtocols = None\<rparr>"

definition zeroConfigX509 :: jsonConfigX509 where
  "zeroConfigX509 =
     \<lparr>CaCertificate = [], ServerPublicKey = [], ServerPrivateKey = [],
      Enable = False, Default = False\<rparr>"

datatype payload =
    NoPayload
  | DeviceServicePayload jsonDeviceService
  | ConfigX509Payload jsonConfigX509

record request =
  path :: string
  meth :: httpMethod
  jsonBody :: payload

record response =
  body :: string
  code :: int
  err :: "string option"

text \<open>
  \<open>type Client\<close>: the discovered API version, and the remote system behind the gateway.
  The remote answers a request as a function of the requests it has already received;
  \<open>calls\<close> is the log of every request issued so far, oldest first.
\<close>

record client =
  bastionAPIVersion :: string
  remote :: "request list \<Rightarrow> request \<Rightarrow> response"
  calls :: "request list"

text \<open>
  Modelled from the spec: \<open>(*Client).newRequest\<close> is not among the sources. Section 6:
  \<open>request(path, method, jsonPayload?) \<rightarrow> (bodyText, statusCode, error)\<close>, one blocking
  call, no retry. The model records the request and returns the remote's answer.
\<close>

definition newRequest :: "client \<Rightarrow> string \<Rightarrow> httpMethod \<Rightarrow> payload \<Rightarrow> response \<times> client" where
  "newRequest c p m j =
     (let req = \<lparr>path = p, meth = m, jsonBody = j\<rparr>
      in (remote c (calls c) req, c\<lparr>calls := calls c @ [req]\<rparr>))"

text \<open>
  What the package takes from outside: \<open>json.Unmarshal\<close> at each result type
  (\<open>Inl\<close> is the decoder's error text; of a device only the \<open>ID\<close> is used),
  \<open>pem.Decode\<close> (the block's bytes, \<open>None\<close> for the nil block),
  \<open>x509.ParseCertificate\<close> followed by \<open>.Subject.CommonName\<close>, and the version
  tables \<open>defaultVersionsValid()\<close> and that of the device kind, which are declared in
  files that are not among the sources.
\<close>

record deps =
  unmarshalDeviceServices :: "string \<Rightarrow> string + jsonDeviceService list"
  unmarshalDeviceService :: "string \<Rightarrow> string + jsonDeviceService"
  unmarshalDeviceID :: "string \<Rightarrow> string + string"
  unmarshalConfigX509 :: "string \<Rightarrow> string + jsonConfigX509"
  pemDecode :: "string \<Rightarrow> string option"
  parseCertificateCommonName :: "string \<Rightarrow> string + string"
  defaultVersionsValid :: "string list"
  deviceVersionsValid :: "string list"

section \<open>Strings\<close>

text \<open>\<open>strings.Split(s, sep)\<close> for a one-byte separator: never empty, \<open>n\<close> separators give \<open>n + 1\<close> parts.\<close>

fun strings_Split :: "string \<Rightarrow> char \<Rightarrow> string list" where
  "strings_Split [] sep = [[]]"
| "strings_Split (x # xs) sep =
     (if x = sep then [] # strings_Split xs sep
      else (case strings_Split xs sep of
              [] \<Rightarrow> [[x]]
            | w # ws \<Rightarrow> (x # w) # ws))"

text \<open>\<open>strings.Contains(s, substr)\<close>.\<close>

fun strings_Contains :: "string \<Rightarrow> string \<Rightarrow> bool" where
  "strings_Contains [] sub = (sub = [])"
| "strings_Contains (x # xs) sub = (prefix sub (x # xs) \<or> strings_Contains xs sub)"

section \<open>Resource \<open>wallix-bastion_device_service\<close>\<close>

text \<open>
  \<open>*schema.ResourceData\<close> at the schema of \<open>resourceDeviceService\<close>: \<open>d.Id()\<close>, the six
  attributes read by \<open>d.Get\<close>, a \<open>*schema.Set\<close> as the list its \<open>List()\<close> returns, and
  the keys for which \<open>d.HasChange\<close> is true.
\<close>

record deviceServiceData =
  dsId :: string
  device_id :: string
  service_name :: string
  connection_policy :: string
  port :: int
  protocol :: string
  global_domains :: "string list"
  subprotocols :: "string list"
  changedKeys :: "string list"

definition HasChange :: "deviceServiceData \<Rightarrow> string \<Rightarrow> bool" where
  "HasChange d k = (k \<in> set (changedKeys d))"

definition resourceDeviceServiceVersionCheck :: "deps \<Rightarrow> string \<Rightarrow> error option" where
  "resourceDeviceServiceVersionCheck L version =
     (if version \<in> set (defaultVersionsValid L) then None
      else Some (ErrorMsg
        (''resource wallix-bastion_device_service not available with api version '' @ version)))"

text \<open>
  Modelled from the spec: \<open>resourceDeviceVersionCheck\<close>, which
  \<open>resourceDeviceServiceUpdate\<close> calls, is declared with the device resource, outside the
  sources. Section 4.5: the gate of a kind fails with a message naming the resource kind
  and the unsupported version when the version is not in the kind's enumerated set.
\<close>

definition resourceDeviceVersionCheck :: "deps \<Rightarrow> string \<Rightarrow> error option" where
  "resourceDeviceVersionCheck L version =
     (if version \<in> set (deviceVersionsValid L) then None
      else Some (ErrorMsg
        (''resource wallix-bastion_device not available with api version '' @ version)))"

text \<open>
  Modelled from the spec: \<open>readDeviceOptions\<close> is declared with the device resource,
  outside the sources; the create path uses only the \<open>ID\<close> of its result. Section 4.4
  (Read): fetch by opaque ID, a not-found response gives the empty record. It has the
  shape of \<open>readDeviceServiceOptions\<close> below.
\<close>

definition readDeviceOptions :: "deps \<Rightarrow> client \<Rightarrow> string \<Rightarrow> (error + string) \<times> client" where
  "readDeviceOptions L c deviceID =
     (let (r, c') = newRequest c (''/devices/'' @ deviceID) MethodGet NoPayload
      in case err r of
           Some e \<Rightarrow> (Inl (ExternalError e), c')
         | None \<Rightarrow>
             if code r = 404 then (Inr [], c')
             else if code r \<noteq> 200
               then (Inl (StatusError ''api doesn't return OK'' (code r) (body r)), c')
             else (case unmarshalDeviceID L (body r) of
                     Inl e \<Rightarrow> (Inl (WrappedError ''unmarshaling json'' e), c')
                   | Inr i \<Rightarrow> (Inr i, c')))"

definition searchResourceDeviceService ::
  "deps \<Rightarrow> client \<Rightarrow> string \<Rightarrow> string \<Rightarrow> (error + string \<times> bool) \<times> client" where
  "searchResourceDeviceService L c deviceID serviceName =
     (let (r, c') = newRequest c
            (''/devices/'' @ deviceID @ ''/services/?q=service_name='' @ serviceName)
            MethodGet NoPayload
      in case err r of
           Some e \<Rightarrow> (Inl (ExternalError e), c')
         | None \<Rightarrow>
             if code r \<noteq> 200
               then (Inl (StatusError ''api doesn't return OK'' (code r) (body r)), c')
             else (case unmarshalDeviceServices L (body r) of
                     Inl e \<Rightarrow> (Inl (WrappedError ''unmarshaling json'' e), c')
                   | Inr results \<Rightarrow>
                       (case results of
                          [x] \<Rightarrow> (Inr (ID x, True), c')
                        | _ \<Rightarrow> (Inr ([], False), c'))))"

definition sshSubProtocolsValid :: "string list" where
  "sshSubProtocolsValid =
     [''SSH_SHELL_SESSION'', ''SSH_REMOTE_COMMAND'', ''SSH_SCP_UP'', ''SSH_SCP_DOWN'',
      ''SSH_X11'', ''SFTP_SESSION'', ''SSH_DIRECT_TCPIP'', ''SSH_REVERSE_TCPIP'',
      ''SSH_AUTH_AGENT'', ''SSH_DIRECT_UNIXSOCK'', ''SSH_REVERSE_UNIXSOCK'']"

definition rdpSubProtocolsValid :: "string list" where
  "rdpSubProtocolsValid =
     [''RDP_CLIPBOARD_UP'', ''RDP_CLIPBOARD_DOWN'', ''RDP_CLIPBOARD_FILE'', ''RDP_PRINTER'',
      ''RDP_COM_PORT'', ''RDP_DRIVE'', ''RDP_SMARTCARD'', ''RDP_AUDIO_OUTPUT'',
      ''RDP_AUDIO_INPUT'']"

text \<open>
  The loop over \<open>listSubProtocols\<close> in \<open>prepareDeviceServiceJSON\<close>: the \<open>switch\<close> on the
  protocol runs once per element, and the first failing element returns.
\<close>

fun subProtocolsLoop :: "string \<Rightarrow> string list \<Rightarrow> error + string list" where
  "subProtocolsLoop proto [] = Inr []"
| "subProtocolsLoop proto (v # vs) =
     (if proto = ''SSH'' then
        (if v \<notin> set sshSubProtocolsValid
           then Inl (ErrorMsg (''subprotocols '' @ v @ '' not valid for SSH service''))
         else (case subProtocolsLoop proto vs of
                 Inl e \<Rightarrow> Inl e
               | Inr r \<Rightarrow> Inr (v # r)))
      else if proto = ''RDP'' then
        (if v \<notin> set rdpSubProtocolsValid
           then Inl (ErrorMsg (''subprotocols '' @ v @ '' not valid for RDP service''))
         else (case subProtocolsLoop proto vs of
                 Inl e \<Rightarrow> Inl e
               | Inr r \<Rightarrow> Inr (v # r)))
      else Inl (ErrorMsg (''subprotocols need to not set for '' @ proto @ '' service'')))"

definition prepareDeviceServiceJSON :: "deviceServiceData \<Rightarrow> bool \<Rightarrow> error + jsonDeviceService" where
  "prepareDeviceServiceJSON d newResource =
     (let jsonData = zeroDeviceService
            \<lparr>ConnectionPolicy := connection_policy d, Port := port d\<rparr>;
          jsonData = (if newResource
                      then jsonData\<lparr>ServiceName := service_name d, Protocol := protocol d\<rparr>
                      else jsonData);
          jsonData = (if HasChange d ''global_domains''
                      then jsonData\<lparr>GlobalDomains := Some (global_domains d)\<rparr>
                      else jsonData)
      in if length (subprotocols d) > 0
         then (case subProtocolsLoop (protocol d) (subprotocols d) of
                 Inl e \<Rightarrow> Inl e
               | Inr subProtocols \<Rightarrow> Inr (jsonData\<lparr>SubProtocols := Some subProtocols\<rparr>))
         else Inr jsonData)"

text \<open>
  The keys \<open>json.Marshal\<close> writes for a \<open>jsonDeviceService\<close>, by its struct tags:
  \<open>port\<close> and \<open>connection_policy\<close> always, the others (\<open>omitempty\<close>) unless the string
  is empty or the pointer nil.
\<close>

definition wireFields :: "jsonDeviceService \<Rightarrow> string list" where
  "wireFields j =
     [''port'']
     @ (if ID j = [] then [] else [''id''])
     @ [''connection_policy'']
     @ (if Protocol j = [] then [] else [''protocol''])
     @ (if ServiceName j = [] then [] else [''service_name''])
     @ (case GlobalDomains j of None \<Rightarrow> [] | Some _ \<Rightarrow> [''global_domains''])
     @ (case SubProtocols j of None \<Rightarrow> [] | Some _ \<Rightarrow> [''subprotocols''])"

definition addDeviceService :: "deps \<Rightarrow> client \<Rightarrow> deviceServiceData \<Rightarrow> error option \<times> client" where
  "addDeviceService L c d =
     (case prepareDeviceServiceJSON d True of
        Inl e \<Rightarrow> (Some e, c)
      | Inr j \<Rightarrow>
          (let (r, c') = newRequest c (''/devices/'' @ device_id d @ ''/services/'')
                           MethodPost (DeviceServicePayload j)
           in case err r of
                Some e \<Rightarrow> (Some (ExternalError e), c')
              | None \<Rightarrow>
                  if code r \<noteq> 200 \<and> code r \<noteq> 204
                    then (Some (StatusError ''api doesn't return OK or NoContent''
                                  (code r) (body r)), c')
                  else (None, c')))"

definition updateDeviceService :: "deps \<Rightarrow> client \<Rightarrow> deviceServiceData \<Rightarrow> error option \<times> client" where
  "updateDeviceService L c d =
     (case prepareDeviceServiceJSON d False of
        Inl e \<Rightarrow> (Some e, c)
      | Inr j \<Rightarrow>
          (let (r, c') = newRequest c
                           (''/devices/'' @ device_id d @ ''/services/'' @ dsId d @ ''?force=true'')
                           MethodPut (DeviceServicePayload j)
           in case err r of
                Some e \<Rightarrow> (Some (ExternalError e), c')
              | None \<Rightarrow>
                  if code r \<noteq> 200 \<and> code r \<noteq> 204
                    then (Some (StatusError ''api doesn't return OK or NoContent''
                                  (code r) (body r)), c')
                  else (None, c')))"

definition deleteDeviceService :: "deps \<Rightarrow> client \<Rightarrow> deviceServiceData \<Rightarrow> error option \<times> client" where
  "deleteDeviceService L c d =
     (let (r, c') = newRequest c (''/devices/'' @ device_id d @ ''/services/'' @ dsId d)
                      MethodDelete NoPayload
      in case err r of
           Some e \<Rightarrow> (Some (ExternalError e), c')
         | None \<Rightarrow>
             if code r \<noteq> 200 \<and> code r \<noteq> 204
               then (Some (StatusError ''api doesn't return OK or NoContent''
                             (code r) (body r)), c')
             else (None, c'))"

definition readDeviceServiceOptions ::
  "deps \<Rightarrow> client \<Rightarrow> string \<Rightarrow> string \<Rightarrow> (error + jsonDeviceService) \<times> client" where
  "readDeviceServiceOptions L c deviceID serviceID =
     (let (r, c') = newRequest c (''/devices/'' @ deviceID @ ''/services/'' @ serviceID)
                      MethodGet NoPayload
      in case err r of
           Some e \<Rightarrow> (Inl (ExternalError e), c')
         | None \<Rightarrow>
             if code r = 404 then (Inr zeroDeviceService, c')
             else if code r \<noteq> 200
               then (Inl (StatusError ''api doesn't return OK'' (code r) (body r)), c')
             else (case unmarshalDeviceService L (body r) of
                     Inl e \<Rightarrow> (Inl (WrappedError ''unmarshaling json'' e), c')
                   | Inr result \<Rightarrow> (Inr result, c')))"

text \<open>
  \<open>fillDeviceService\<close>: six \<open>d.Set\<close> calls, which cannot fail at these types (the
  \<open>panic\<close> branches are dead); a nil list pointer sets the empty set.
\<close>

definition fillDeviceService :: "deviceServiceData \<Rightarrow> jsonDeviceService \<Rightarrow> deviceServiceData" where
  "fillDeviceService d jsonData =
     d\<lparr>service_name := ServiceName jsonData,
       connection_policy := ConnectionPolicy jsonData,
       port := Port jsonData,
       protocol := Protocol jsonData,
       global_domains := (case GlobalDomains jsonData of None \<Rightarrow> [] | Some g \<Rightarrow> g),
       subprotocols := (case SubProtocols jsonData of None \<Rightarrow> [] | Some s \<Rightarrow> s)\<rparr>"

text \<open>
  The five operations return the diagnostics (\<open>None\<close> is success), the resource data as
  the operation left it, and the client with its call log.
\<close>

definition resourceDeviceServiceRead ::
  "deps \<Rightarrow> client \<Rightarrow> deviceServiceData \<Rightarrow> error option \<times> deviceServiceData \<times> client" where
  "resourceDeviceServiceRead L c d =
     (case resourceDeviceServiceVersionCheck L (bastionAPIVersion c) of
        Some e \<Rightarrow> (Some e, d, c)
      | None \<Rightarrow>
          (case readDeviceServiceOptions L c (device_id d) (dsId d) of
             (Inl e, c') \<Rightarrow> (Some e, d, c')
           | (Inr cfg, c') \<Rightarrow>
               if ID cfg = [] then (None, d\<lparr>dsId := []\<rparr>, c')
               else (None, fillDeviceService d cfg, c')))"

definition resourceDeviceServiceCreate ::
  "deps \<Rightarrow> client \<Rightarrow> deviceServiceData \<Rightarrow> error option \<times> deviceServiceData \<times> client" where
  "resourceDeviceServiceCreate L c d =
     (case resourceDeviceServiceVersionCheck L (bastionAPIVersion c) of
        Some e \<Rightarrow> (Some e, d, c)
      | None \<Rightarrow>
          (case readDeviceOptions L c (device_id d) of
             (Inl e, c1) \<Rightarrow> (Some e, d, c1)
           | (Inr cfgID, c1) \<Rightarrow>
               if cfgID = []
                 then (Some (ErrorMsg (''device with ID '' @ device_id d @ '' doesn't exists'')),
                       d, c1)
               else
                 (case searchResourceDeviceService L c1 (device_id d) (service_name d) of
                    (Inl e, c2) \<Rightarrow> (Some e, d, c2)
                  | (Inr (_, ex), c2) \<Rightarrow>
                      if ex
                        then (Some (ErrorMsg (''service_name '' @ service_name d
                                 @ '' on device_id '' @ device_id d @ '' already exists'')),
                              d, c2)
                      else
                        (case addDeviceService L c2 d of
                           (Some e, c3) \<Rightarrow> (Some e, d, c3)
                         | (None, c3) \<Rightarrow>
                             (case searchResourceDeviceService L c3
                                     (device_id d) (service_name d) of
                                (Inl e, c4) \<Rightarrow> (Some e, d, c4)
                              | (Inr (i, ex'), c4) \<Rightarrow>
                                  if \<not> ex'
                                    then (Some (ErrorMsg (''service_name '' @ service_name d
                                             @ '' on device_id '' @ device_id d
                                             @ '' not found after POST'')),
                                          d, c4)
                                  else resourceDeviceServiceRead L c4 (d\<lparr>dsId := i\<rparr>))))))"

definition resourceDeviceServiceUpdate ::
  "deps \<Rightarrow> client \<Rightarrow> deviceServiceData \<Rightarrow> error option \<times> deviceServiceData \<times> client" where
  "resourceDeviceServiceUpdate L c d =
     (case resourceDeviceVersionCheck L (bastionAPIVersion c) of
        Some e \<Rightarrow> (Some e, d, c)
      | None \<Rightarrow>
          (case updateDeviceService L c d of
             (Some e, c') \<Rightarrow> (Some e, d, c')
           | (None, c') \<Rightarrow> resourceDeviceServiceRead L c' d))"

definition resourceDeviceServiceDelete ::
  "deps \<Rightarrow> client \<Rightarrow> deviceServiceData \<Rightarrow> error option \<times> deviceServiceData \<times> client" where
  "resourceDeviceServiceDelete L c d =
     (case resourceDeviceServiceVersionCheck L (bastionAPIVersion c) of
        Some e \<Rightarrow> (Some e, d, c)
      | None \<Rightarrow>
          (case deleteDeviceService L c d of
             (Some e, c') \<Rightarrow> (Some e, d, c')
           | (None, c') \<Rightarrow> (None, d, c')))"

text \<open>
  \<open>resourceDeviceServiceImport\<close> returns \<open>([]*schema.ResourceData, error)\<close>; the final
  \<open>d.Set("device_id", \<dots>)\<close> cannot fail on a string attribute.
\<close>

definition resourceDeviceServiceImport ::
  "deps \<Rightarrow> client \<Rightarrow> deviceServiceData \<Rightarrow> (error + deviceServiceData list) \<times> client" where
  "resourceDeviceServiceImport L c d =
     (case resourceDeviceServiceVersionCheck L (bastionAPIVersion c) of
        Some e \<Rightarrow> (Inl e, c)
      | None \<Rightarrow>
          (case strings_Split (dsId d) (CHR ''/'') of
             [idSplit0, idSplit1] \<Rightarrow>
               (case searchResourceDeviceService L c idSplit0 idSplit1 of
                  (Inl e, c1) \<Rightarrow> (Inl e, c1)
                | (Inr (i, ex), c1) \<Rightarrow>
                    if \<not> ex
                      then (Inl (ErrorMsg (''don't find service_name with id '' @ dsId d
                               @ '' (id must be <device_id>/<service_name>)'')), c1)
                    else
                      (case readDeviceServiceOptions L c1 idSplit0 i of
                         (Inl e, c2) \<Rightarrow> (Inl e, c2)
                       | (Inr cfg, c2) \<Rightarrow>
                           (Inr [(fillDeviceService d cfg)\<lparr>dsId := i, device_id := idSplit0\<rparr>],
                            c2)))
           | _ \<Rightarrow> (Inl (ErrorMsg ''id must be <device_id>/<service_name>''), c)))"

section \<open>Resource \<open>wallix-bastion_config_x509\<close>\<close>

text \<open>\<open>*schema.ResourceData\<close> at the schema of \<open>resourceConfigX509\<close>.\<close>

record configX509Data =
  xId :: string
  ca_certificate :: string
  server_public_key :: string
  server_private_key :: string
  enable :: bool

definition readConfigX509Options :: "deps \<Rightarrow> client \<Rightarrow> (error + jsonConfigX509) \<times> client" where
  "readConfigX509Options L c =
     (let (r, c') = newRequest c ''/config/x509'' MethodGet NoPayload
      in case err r of
           Some e \<Rightarrow> (Inl (ExternalError e), c')
         | None \<Rightarrow>
             if code r = 404 then (Inr zeroConfigX509, c')
             else if code r \<noteq> 200
               then (Inl (StatusError ''API returned error'' (code r) (body r)), c')
             else (case unmarshalConfigX509 L (body r) of
                     Inl e \<Rightarrow> (Inl (WrappedError ''error unmarshaling JSON'' e), c')
                   | Inr result \<Rightarrow> (Inr result, c')))"

definition deleteConfigX509 :: "deps \<Rightarrow> client \<Rightarrow> error option \<times> client" where
  "deleteConfigX509 L c =
     (let (r, c') = newRequest c ''/config/x509'' MethodDelete NoPayload
      in case err r of
           Some e \<Rightarrow> (Some (ExternalError e), c')
         | None \<Rightarrow>
             if code r \<noteq> 200 \<and> code r \<noteq> 204
               then (Some (StatusError ''API returned error'' (code r) (body r)), c')
             else (None, c'))"

text \<open>\<open>fillConfigX509\<close>: \<open>d.Set("enable", \<dots>)\<close> of a bool on a bool attribute does not fail.\<close>

definition fillConfigX509 :: "configX509Data \<Rightarrow> jsonConfigX509 \<Rightarrow> configX509Data" where
  "fillConfigX509 d jsonData = d\<lparr>enable := Enable jsonData\<rparr>"

text \<open>
  \<open>resourceConfigX509Read\<close>, in the two parts of its body: the second is what follows
  the \<open>ca_certificate\<close> block (the \<open>server_public_key\<close> block and \<open>fillConfigX509\<close>).
  \<open>pem.Decode\<close>'s block is used without a nil check, so a nil block panics at \<open>.Bytes\<close>.
\<close>

definition resourceConfigX509Read_serverPublicKey ::
  "deps \<Rightarrow> client \<Rightarrow> configX509Data \<Rightarrow> jsonConfigX509
     \<Rightarrow> error option \<times> configX509Data \<times> client" where
  "resourceConfigX509Read_serverPublicKey L c d cfg =
     (if server_public_key d \<noteq> [] then
        (case pemDecode L (server_public_key d) of
           None \<Rightarrow> (Some NilPointerPanic, d, c)
         | Some bytes \<Rightarrow>
             (case parseCertificateCommonName L bytes of
                Inl e \<Rightarrow> (Some (ExternalError e), d, c)
              | Inr commonName \<Rightarrow>
                  if \<not> strings_Contains (ServerPublicKey cfg) (''/CN='' @ commonName)
                    then (None, d\<lparr>xId := []\<rparr>, c)
                  else (None, fillConfigX509 d cfg, c)))
      else (None, fillConfigX509 d cfg, c))"

definition resourceConfigX509Read ::
  "deps \<Rightarrow> client \<Rightarrow> configX509Data \<Rightarrow> error option \<times> configX509Data \<times> client" where
  "resourceConfigX509Read L c d =
     (case readConfigX509Options L c of
        (Inl e, c') \<Rightarrow> (Some e, d, c')
      | (Inr cfg, c') \<Rightarrow>
          if Default cfg then (None, d\<lparr>xId := []\<rparr>, c')
          else if ca_certificate d \<noteq> [] then
            (case pemDecode L (ca_certificate d) of
               None \<Rightarrow> (Some NilPointerPanic, d, c')
             | Some bytes \<Rightarrow>
                 (case parseCertificateCommonName L bytes of
                    Inl e \<Rightarrow> (Some (ExternalError e), d, c')
                  | Inr commonName \<Rightarrow>
                      if \<not> strings_Contains (CaCertificate cfg) (''/CN='' @ commonName)
                        then (None, d\<lparr>xId := []\<rparr>, c')
                      else resourceConfigX509Read_serverPublicKey L c' d cfg))
          else resourceConfigX509Read_serverPublicKey L c' d cfg)"

definition resourceConfigX509Delete ::
  "deps \<Rightarrow> client \<Rightarrow> configX509Data \<Rightarrow> error option \<times> configX509Data \<times> client" where
  "resourceConfigX509Delete L c d =
     (case deleteConfigX509 L c of
        (Some e, c') \<Rightarrow> (Some e, d, c')
      | (None, c') \<Rightarrow> (None, d\<lparr>xId := []\<rparr>, c'))"

text \<open>\<open>resourceConfigX509Import\<close> takes the client as \<open>_\<close>: it cannot use it.\<close>

definition resourceConfigX509Import ::
  "client \<Rightarrow> configX509Data \<Rightarrow> (error + configX509Data list) \<times> client" where
  "resourceConfigX509Import c d = (Inr [d\<lparr>xId := ''x509Config''\<rparr>], c)"

section \<open>The configuration error of a sub-protocol set\<close>

text \<open>
  The rule of the data model, in the spec's words (SubProtocolSet): every token must
  belong to the allow-list keyed by the protocol, and a protocol without an allow-list
  admits no token. \<open>expectedSubProtocolsError d\<close> is the configuration error of a
  declared service: for SSH and RDP it names the first token (in the order of the set's
  list) outside the allow-list and the protocol; for any other protocol with a non-empty
  set it names the protocol only. It is compared with \<open>prepareDeviceServiceJSON\<close>.
\<close>

definition expectedSubProtocolsError :: "deviceServiceData \<Rightarrow> error option" where
  "expectedSubProtocolsError d =
     (if subprotocols d = [] then None
      else if protocol d = ''SSH'' then
        map_option (\<lambda>v. ErrorMsg (''subprotocols '' @ v @ '' not valid for SSH service''))
          (find (\<lambda>v. v \<notin> set sshSubProtocolsValid) (subprotocols d))
      else if protocol d = ''RDP'' then
        map_option (\<lambda>v. ErrorMsg (''subprotocols '' @ v @ '' not valid for RDP service''))
          (find (\<lambda>v. v \<notin> set rdpSubProtocolsValid) (subprotocols d))
      else Some (ErrorMsg (''subprotocols need to not set for '' @ protocol d @ '' service'')))"

section \<open>Example remotes and resources\<close>

text \<open>
  A remote that answers the n-th request it receives with the n-th response of a script,
  toy decoders (a list body is the service IDs separated by spaces; a PEM text is the
  marker \<open>-----BEGIN \<close> followed by the common name), and a declared service. They
  are the concrete inputs at which the theorems below are instantiated.
\<close>

definition scripted :: "response list \<Rightarrow> request list \<Rightarrow> request \<Rightarrow> response" where
  "scripted rs hist req =
     (case drop (length hist) rs of
        [] \<Rightarrow> \<lparr>body = ''no more answers'', code = 500, err = None\<rparr>
      | r # _ \<Rightarrow> r)"

definition exampleDeps :: deps where
  "exampleDeps =
     \<lparr>unmarshalDeviceServices =
        (\<lambda>b. if b = ''bad'' then Inl ''invalid character''
             else Inr (map (\<lambda>i. zeroDeviceService\<lparr>ID := i\<rparr>)
                        (filter (\<lambda>w. w \<noteq> []) (strings_Split b (CHR '' ''))))),
      unmarshalDeviceService =
        (\<lambda>b. if b = ''bad'' then Inl ''invalid character''
             else Inr (zeroDeviceService\<lparr>ID := b\<rparr>)),
      unmarshalDeviceID = (\<lambda>b. Inr b),
      unmarshalConfigX509 =
        (\<lambda>b. Inr (zeroConfigX509\<lparr>CaCertificate := b, ServerPublicKey := b\<rparr>)),
      pemDecode = (\<lambda>s. if prefix ''-----BEGIN '' s then Some (drop 11 s) else None),
      parseCertificateCommonName = (\<lambda>b. Inr b),
      defaultVersionsValid = [''v3.12''],
      deviceVersionsValid = [''v3.12'']\<rparr>"

definition exampleClient :: "string \<Rightarrow> response list \<Rightarrow> client" where
  "exampleClient v rs = \<lparr>bastionAPIVersion = v, remote = scripted rs, calls = []\<rparr>"

definition ok :: "string \<Rightarrow> response" where
  "ok b = \<lparr>body = b, code = 200, err = None\<rparr>"

definition notFound :: response where
  "notFound = \<lparr>body = ''not found'', code = 404, err = None\<rparr>"

definition exampleService :: deviceServiceData where
  "exampleService =
     \<lparr>dsId = ''s1'', device_id = ''dev1'', service_name = ''svcA'',
      connection_policy = ''SSH'', port = 22, protocol = ''SSH'',
      global_domains = [], subprotocols = [''SSH_X11''], changedKeys = [''port'']\<rparr>"

definition exampleX509 :: configX509Data where
  "exampleX509 =
     \<lparr>xId = ''x509Config'', ca_certificate = [],
      server_public_key = ''-----BEGIN example.com'', server_private_key = ''key'',
      enable = False\<rparr>"

section \<open>The gateway and the Identity Resolver\<close>

lemma newRequest_eq:
  "newRequest c p m j =
     (remote c (calls c) \<lparr>path = p, meth = m, jsonBody = j\<rparr>,
      c\<lparr>calls := calls c @ [\<lparr>path = p, meth = m, jsonBody = j\<rparr>]\<rparr>)"
  by (simp add: newRequest_def Let_def)

lemma searchResourceDeviceService_answer:
  assumes "newRequest c (''/devices/'' @ deviceID @ ''/services/?q=service_name='' @ serviceName)
             MethodGet NoPayload = (r, c')"
    and "err r = None" and "code r = 200"
    and "unmarshalDeviceServices L (body r) = Inr results"
  shows "searchResourceDeviceService L c deviceID serviceName =
           (Inr (case results of [x] \<Rightarrow> (ID x, True) | _ \<Rightarrow> ([], False)), c')"
  using assms by (simp add: searchResourceDeviceService_def split: list.splits)

text \<open>
  C2, as the code has it. When the listing query is answered with status 200 and a body
  that decodes to \<open>results\<close>, the resolver returns the identifier of the match and
  \<open>found = true\<close> if there is exactly one match, and the empty identifier with
  \<open>found = false\<close> and no error for any other number of matches, two or more included.
\<close>

theorem search_not_found_unless_exactly_one:
  assumes "newRequest c (''/devices/'' @ deviceID @ ''/services/?q=service_name='' @ serviceName)
             MethodGet NoPayload = (r, c')"
    and "err r = None" and "code r = 200"
    and "unmarshalDeviceServices L (body r) = Inr results"
  shows "searchResourceDeviceService L c deviceID serviceName =
           (Inr (if length results = 1 then (ID (hd results), True) else ([], False)), c')"
  using assms by (simp add: searchResourceDeviceService_def split: list.splits)

theorem search_not_found_unless_exactly_one_witness:
  "searchResourceDeviceService exampleDeps (exampleClient ''v3.12'' [ok ''s1 s2 s3''])
       ''dev1'' ''svcA''
     = (Inr ([], False),
        (exampleClient ''v3.12'' [ok ''s1 s2 s3''])
          \<lparr>calls := [\<lparr>path = ''/devices/dev1/services/?q=service_name=svcA'',
                       meth = MethodGet, jsonBody = NoPayload\<rparr>]\<rparr>)
   \<and> searchResourceDeviceService exampleDeps (exampleClient ''v3.12'' [ok ''s7''])
       ''dev1'' ''svcA''
     = (Inr (''s7'', True),
        (exampleClient ''v3.12'' [ok ''s7''])
          \<lparr>calls := [\<lparr>path = ''/devices/dev1/services/?q=service_name=svcA'',
                       meth = MethodGet, jsonBody = NoPayload\<rparr>]\<rparr>)"
proof -
  let ?p = "''/devices/'' @ ''dev1'' @ ''/services/?q=service_name='' @ ''svcA''"
  let ?q = "\<lparr>path = ''/devices/dev1/services/?q=service_name=svcA'',
             meth = MethodGet, jsonBody = NoPayload\<rparr>"
  let ?c3 = "exampleClient ''v3.12'' [ok ''s1 s2 s3'']"
  let ?c1 = "exampleClient ''v3.12'' [ok ''s7'']"
  have a: "newRequest ?c3 ?p MethodGet NoPayload = (ok ''s1 s2 s3'', ?c3\<lparr>calls := [?q]\<rparr>)"
    by (simp add: newRequest_eq exampleClient_def scripted_def)
  have b: "newRequest ?c1 ?p MethodGet NoPayload = (ok ''s7'', ?c1\<lparr>calls := [?q]\<rparr>)"
    by (simp add: newRequest_eq exampleClient_def scripted_def)
  have u3: "unmarshalDeviceServices exampleDeps (body (ok ''s1 s2 s3'')) =
              Inr [zeroDeviceService\<lparr>ID := ''s1''\<rparr>, zeroDeviceService\<lparr>ID := ''s2''\<rparr>,
                   zeroDeviceService\<lparr>ID := ''s3''\<rparr>]"
    by (simp add: exampleDeps_def ok_def)
  have u1: "unmarshalDeviceServices exampleDeps (body (ok ''s7'')) =
              Inr [zeroDeviceService\<lparr>ID := ''s7''\<rparr>]"
    by (simp add: exampleDeps_def ok_def)
  from search_not_found_unless_exactly_one [OF a _ _ u3]
       search_not_found_unless_exactly_one [OF b _ _ u1]
  show ?thesis by (simp add: ok_def)
qed

text \<open>
  C2 as stated fails: a listing that decodes to two matches is reported as not found,
  with no error.
\<close>

theorem search_two_matches_counterexample:
  "unmarshalDeviceServices exampleDeps (body (ok ''s1 s2'')) =
     Inr [zeroDeviceService\<lparr>ID := ''s1''\<rparr>, zeroDeviceService\<lparr>ID := ''s2''\<rparr>]
   \<and> fst (searchResourceDeviceService exampleDeps (exampleClient ''v3.12'' [ok ''s1 s2''])
            ''dev1'' ''svcA'') = Inr ([], False)"
  by (simp add: searchResourceDeviceService_def newRequest_eq exampleClient_def
        scripted_def exampleDeps_def ok_def)

section \<open>Import of the x509 configuration\<close>

text \<open>
  C10. Whatever identifier the operator supplies, \<open>resourceConfigX509Import\<close> succeeds,
  returns the one resource with its tracked identity set to \<open>x509Config\<close>, and leaves
  the client as it was: no request is issued, and the supplied identifier has no
  influence on the result.
\<close>

theorem resourceConfigX509Import_static_id:
  "resourceConfigX509Import c (d\<lparr>xId := supplied\<rparr>) = (Inr [d\<lparr>xId := ''x509Config''\<rparr>], c)"
  by (simp add: resourceConfigX509Import_def)

section \<open>Not-found responses on the read and delete paths\<close>

lemma readDeviceServiceOptions_404:
  assumes "newRequest c (''/devices/'' @ deviceID @ ''/services/'' @ serviceID)
             MethodGet NoPayload = (r, c')"
    and "err r = None" and "code r = 404"
  shows "readDeviceServiceOptions L c deviceID serviceID = (Inr zeroDeviceService, c')"
  using assms by (simp add: readDeviceServiceOptions_def)

lemma deleteDeviceService_404:
  assumes "newRequest c (''/devices/'' @ device_id d @ ''/services/'' @ dsId d)
             MethodDelete NoPayload = (r, c')"
    and "err r = None" and "code r = 404"
  shows "deleteDeviceService L c d =
           (Some (StatusError ''api doesn't return OK or NoContent'' 404 (body r)), c')"
  using assms by (simp add: deleteDeviceService_def)

text \<open>
  The delete of the x509 configuration has the same test on the status: only 200 and
  204 are success, in every delete of the package.
\<close>

lemma resourceConfigX509Delete_404:
  assumes "newRequest c ''/config/x509'' MethodDelete NoPayload = (r, c')"
    and "err r = None" and "code r = 404"
  shows "resourceConfigX509Delete L c d =
           (Some (StatusError ''API returned error'' 404 (body r)), d, c')"
  using assms by (simp add: resourceConfigX509Delete_def deleteConfigX509_def)

text \<open>
  C1, as the code has it. With a supported API version, when the remote answers the
  request on \<open>/devices/<device_id>/services/<id>\<close> with status 404: the read
  (\<open>GET\<close>) succeeds and clears the tracked identity; the delete (\<open>DELETE\<close>) fails
  with the remote error that carries the status 404 and the body, since only 200 and 204
  count as success there.
\<close>

theorem read_404_absent_delete_404_error:
  assumes "bastionAPIVersion c \<in> set (defaultVersionsValid L)"
    and "newRequest c (''/devices/'' @ device_id d @ ''/services/'' @ dsId d) m NoPayload
           = (r, c')"
    and "err r = None" and "code r = 404"
  shows "(m = MethodGet \<longrightarrow>
            resourceDeviceServiceRead L c d = (None, d\<lparr>dsId := []\<rparr>, c'))
       \<and> (m = MethodDelete \<longrightarrow>
            resourceDeviceServiceDelete L c d =
              (Some (StatusError ''api doesn't return OK or NoContent'' 404 (body r)), d, c'))"
proof (intro conjI impI)
  assume "m = MethodGet"
  with assms have "readDeviceServiceOptions L c (device_id d) (dsId d)
                     = (Inr zeroDeviceService, c')"
    by (simp add: readDeviceServiceOptions_404)
  with assms(1) show "resourceDeviceServiceRead L c d = (None, d\<lparr>dsId := []\<rparr>, c')"
    by (simp add: resourceDeviceServiceRead_def resourceDeviceServiceVersionCheck_def
          zeroDeviceService_def)
next
  assume "m = MethodDelete"
  with assms have "deleteDeviceService L c d =
      (Some (StatusError ''api doesn't return OK or NoContent'' 404 (body r)), c')"
    by (simp add: deleteDeviceService_404)
  with assms(1) show "resourceDeviceServiceDelete L c d =
      (Some (StatusError ''api doesn't return OK or NoContent'' 404 (body r)), d, c')"
    by (simp add: resourceDeviceServiceDelete_def resourceDeviceServiceVersionCheck_def)
qed

theorem read_404_absent_delete_404_error_witness:
  "resourceDeviceServiceRead exampleDeps (exampleClient ''v3.12'' [notFound]) exampleService
     = (None, exampleService\<lparr>dsId := []\<rparr>,
        (exampleClient ''v3.12'' [notFound])
          \<lparr>calls := [\<lparr>path = ''/devices/dev1/services/s1'', meth = MethodGet,
                       jsonBody = NoPayload\<rparr>]\<rparr>)
   \<and> resourceDeviceServiceDelete exampleDeps (exampleClient ''v3.12'' [notFound]) exampleService
     = (Some (StatusError ''api doesn't return OK or NoContent'' 404 ''not found''),
        exampleService,
        (exampleClient ''v3.12'' [notFound])
          \<lparr>calls := [\<lparr>path = ''/devices/dev1/services/s1'', meth = MethodDelete,
                       jsonBody = NoPayload\<rparr>]\<rparr>)"
proof -
  let ?c = "exampleClient ''v3.12'' [notFound]"
  have v: "bastionAPIVersion ?c \<in> set (defaultVersionsValid exampleDeps)"
    by (simp add: exampleClient_def exampleDeps_def)
  have q: "newRequest ?c (''/devices/'' @ device_id exampleService @ ''/services/''
                           @ dsId exampleService) m NoPayload
             = (notFound, ?c\<lparr>calls := [\<lparr>path = ''/devices/dev1/services/s1'', meth = m,
                                         jsonBody = NoPayload\<rparr>]\<rparr>)" for m
    by (simp add: newRequest_eq exampleClient_def scripted_def exampleService_def)
  have e: "err notFound = None" and k: "code notFound = 404"
    by (simp_all add: notFound_def)
  from read_404_absent_delete_404_error [OF v q e k, of MethodGet]
       read_404_absent_delete_404_error [OF v q e k, of MethodDelete]
  show ?thesis by (simp add: notFound_def)
qed

text \<open>
  C1 as stated fails on the delete path: the remote answers the delete with 404, and the
  operation returns an error.
\<close>

theorem delete_404_counterexample:
  "code (remote (exampleClient ''v3.12'' [notFound]) []
           \<lparr>path = ''/devices/dev1/services/s1'', meth = MethodDelete, jsonBody = NoPayload\<rparr>)
     = 404
   \<and> fst (resourceDeviceServiceDelete exampleDeps (exampleClient ''v3.12'' [notFound])
            exampleService)
     = Some (StatusError ''api doesn't return OK or NoContent'' 404 ''not found'')"
  by (simp add: resourceDeviceServiceDelete_def resourceDeviceServiceVersionCheck_def
        deleteDeviceService_def newRequest_eq exampleClient_def scripted_def exampleDeps_def
        exampleService_def notFound_def)

section \<open>Sub-protocol validation on create\<close>

lemma subProtocolsLoop_SSH:
  "subProtocolsLoop ''SSH'' vs =
     (case find (\<lambda>v. v \<notin> set sshSubProtocolsValid) vs of
        Some v \<Rightarrow> Inl (ErrorMsg (''subprotocols '' @ v @ '' not valid for SSH service''))
      | None \<Rightarrow> Inr vs)"
  by (induction vs) (simp_all split: option.splits)

lemma subProtocolsLoop_RDP:
  "subProtocolsLoop ''RDP'' vs =
     (case find (\<lambda>v. v \<notin> set rdpSubProtocolsValid) vs of
        Some v \<Rightarrow> Inl (ErrorMsg (''subprotocols '' @ v @ '' not valid for RDP service''))
      | None \<Rightarrow> Inr vs)"
  by (induction vs) (simp_all split: option.splits)

lemma subProtocolsLoop_other:
  assumes "proto \<noteq> ''SSH''" and "proto \<noteq> ''RDP''" and "vs \<noteq> []"
  shows "subProtocolsLoop proto vs =
           Inl (ErrorMsg (''subprotocols need to not set for '' @ proto @ '' service''))"
  using assms by (cases vs) simp_all

lemma subProtocolsLoop_expected:
  assumes "subprotocols d \<noteq> []"
  shows "subProtocolsLoop (protocol d) (subprotocols d) =
           (case expectedSubProtocolsError d of
              Some e \<Rightarrow> Inl e
            | None \<Rightarrow> Inr (subprotocols d))"
proof -
  consider "protocol d = ''SSH''" | "protocol d = ''RDP''"
    | "protocol d \<noteq> ''SSH''" "protocol d \<noteq> ''RDP''"
    by blast
  then show ?thesis
  proof cases
    case 1
    with assms show ?thesis
      by (simp add: expectedSubProtocolsError_def subProtocolsLoop_SSH split: option.splits)
  next
    case 2
    with assms show ?thesis
      by (simp add: expectedSubProtocolsError_def subProtocolsLoop_RDP split: option.splits)
  next
    case 3
    with assms show ?thesis
      by (simp add: expectedSubProtocolsError_def subProtocolsLoop_other)
  qed
qed

lemma prepareDeviceServiceJSON_rejects:
  assumes "expectedSubProtocolsError d = Some e"
  shows "prepareDeviceServiceJSON d newResource = Inl e"
proof -
  from assms have ne: "subprotocols d \<noteq> []"
    by (auto simp: expectedSubProtocolsError_def split: if_splits)
  with assms show ?thesis
    by (simp add: prepareDeviceServiceJSON_def Let_def subProtocolsLoop_expected)
qed

lemma prepareDeviceServiceJSON_accepts:
  assumes "expectedSubProtocolsError d = None"
  shows "\<exists>j. prepareDeviceServiceJSON d newResource = Inr j"
  using assms
  by (cases "subprotocols d = []")
     (simp_all add: prepareDeviceServiceJSON_def Let_def subProtocolsLoop_expected)

lemma readDeviceOptions_calls:
  "readDeviceOptions L c x = (r, c1) \<Longrightarrow>
     calls c1 = calls c @ [\<lparr>path = ''/devices/'' @ x, meth = MethodGet, jsonBody = NoPayload\<rparr>]"
  by (auto simp: readDeviceOptions_def newRequest_eq split: option.splits sum.splits if_splits)

lemma searchResourceDeviceService_calls:
  "searchResourceDeviceService L c x y = (r, c1) \<Longrightarrow>
     calls c1 = calls c @ [\<lparr>path = ''/devices/'' @ x @ ''/services/?q=service_name='' @ y,
                             meth = MethodGet, jsonBody = NoPayload\<rparr>]"
  by (auto simp: searchResourceDeviceService_def newRequest_eq
           split: option.splits sum.splits if_splits list.splits)

lemma addDeviceService_rejects:
  assumes "expectedSubProtocolsError d = Some e"
  shows "addDeviceService L c d = (Some e, c)"
  using prepareDeviceServiceJSON_rejects [OF assms, of True]
  by (simp add: addDeviceService_def)

lemma create_rejected_calls:
  assumes "expectedSubProtocolsError d = Some e"
  shows "fst (resourceDeviceServiceCreate L c d) \<noteq> None
       \<and> (\<exists>gets. calls (snd (snd (resourceDeviceServiceCreate L c d))) = calls c @ gets
                \<and> list_all (\<lambda>q. meth q = MethodGet) gets)"
proof (cases "resourceDeviceServiceVersionCheck L (bastionAPIVersion c)")
  case (Some a)
  then show ?thesis by (simp add: resourceDeviceServiceCreate_def)
next
  case None
  obtain r1 c1 where dev: "readDeviceOptions L c (device_id d) = (r1, c1)"
    by (cases "readDeviceOptions L c (device_id d)")
  obtain r2 c2 where se:
    "searchResourceDeviceService L c1 (device_id d) (service_name d) = (r2, c2)"
    by (cases "searchResourceDeviceService L c1 (device_id d) (service_name d)")
  note k1 = readDeviceOptions_calls [OF dev]
  note k2 = searchResourceDeviceService_calls [OF se]
  show ?thesis
    using None dev se k1 k2 addDeviceService_rejects [OF assms, of L c2]
    by (auto simp: resourceDeviceServiceCreate_def split: sum.splits)
qed

text \<open>
  C3, as the code has it. Let the declared service have a sub-protocol set with a token
  outside the allow-list of its protocol (SSH or RDP), or a non-empty set under any other
  protocol, and let \<open>e\<close> be its configuration error: the one naming the first
  offending token and the protocol, or, for a protocol without allow-list, the protocol
  only. Then the translation to the wire payload fails with \<open>e\<close>; the create operation
  fails, and the only requests it issues are \<open>GET\<close>s, so the create call (\<open>POST\<close>) is
  never sent; and when the version gate, the device lookup and the pre-create search
  pass, the create fails with exactly \<open>e\<close>, after the two lookups (device, then
  services listing) have been issued.
\<close>

theorem create_rejects_invalid_subprotocols:
  assumes "expectedSubProtocolsError d = Some e"
  shows "prepareDeviceServiceJSON d True = Inl e
       \<and> fst (resourceDeviceServiceCreate L c d) \<noteq> None
       \<and> (\<exists>gets. calls (snd (snd (resourceDeviceServiceCreate L c d))) = calls c @ gets
                \<and> list_all (\<lambda>q. meth q = MethodGet) gets)
       \<and> (bastionAPIVersion c \<in> set (defaultVersionsValid L) \<longrightarrow>
          readDeviceOptions L c (device_id d) = (Inr devID, c1) \<longrightarrow> devID \<noteq> [] \<longrightarrow>
          searchResourceDeviceService L c1 (device_id d) (service_name d)
            = (Inr (i, False), c2) \<longrightarrow>
          resourceDeviceServiceCreate L c d = (Some e, d, c2)
          \<and> calls c2 = calls c @
               [\<lparr>path = ''/devices/'' @ device_id d, meth = MethodGet, jsonBody = NoPayload\<rparr>,
                \<lparr>path = ''/devices/'' @ device_id d @ ''/services/?q=service_name=''
                          @ service_name d,
                 meth = MethodGet, jsonBody = NoPayload\<rparr>])"
proof -
  have a: "prepareDeviceServiceJSON d True = Inl e"
    by (rule prepareDeviceServiceJSON_rejects [OF assms])
  have b: "fst (resourceDeviceServiceCreate L c d) \<noteq> None
       \<and> (\<exists>gets. calls (snd (snd (resourceDeviceServiceCreate L c d))) = calls c @ gets
                \<and> list_all (\<lambda>q. meth q = MethodGet) gets)"
    by (rule create_rejected_calls [OF assms])
  have c: "resourceDeviceServiceCreate L c d = (Some e, d, c2)
          \<and> calls c2 = calls c @
               [\<lparr>path = ''/devices/'' @ device_id d, meth = MethodGet, jsonBody = NoPayload\<rparr>,
                \<lparr>path = ''/devices/'' @ device_id d @ ''/services/?q=service_name=''
                          @ service_name d,
                 meth = MethodGet, jsonBody = NoPayload\<rparr>]"
    if v: "bastionAPIVersion c \<in> set (defaultVersionsValid L)"
      and dev: "readDeviceOptions L c (device_id d) = (Inr devID, c1)" and ne: "devID \<noteq> []"
      and se: "searchResourceDeviceService L c1 (device_id d) (service_name d)
                 = (Inr (i, False), c2)"
  proof
    show "resourceDeviceServiceCreate L c d = (Some e, d, c2)"
      using v dev ne se addDeviceService_rejects [OF assms, of L c2]
      by (simp add: resourceDeviceServiceCreate_def resourceDeviceServiceVersionCheck_def)
    show "calls c2 = calls c @
               [\<lparr>path = ''/devices/'' @ device_id d, meth = MethodGet, jsonBody = NoPayload\<rparr>,
                \<lparr>path = ''/devices/'' @ device_id d @ ''/services/?q=service_name=''
                          @ service_name d,
                 meth = MethodGet, jsonBody = NoPayload\<rparr>]"
      using readDeviceOptions_calls [OF dev] searchResourceDeviceService_calls [OF se]
      by simp
  qed
  from a b c show ?thesis by blast
qed

theorem create_rejects_invalid_subprotocols_witness:
  "expectedSubProtocolsError (exampleService\<lparr>subprotocols := [''SSH_X11'', ''RDP_DRIVE'']\<rparr>)
     = Some (ErrorMsg ''subprotocols RDP_DRIVE not valid for SSH service'')
   \<and> resourceDeviceServiceCreate exampleDeps (exampleClient ''v3.12'' [ok ''dev1'', ok []])
       (exampleService\<lparr>subprotocols := [''SSH_X11'', ''RDP_DRIVE'']\<rparr>)
     = (Some (ErrorMsg ''subprotocols RDP_DRIVE not valid for SSH service''),
        exampleService\<lparr>subprotocols := [''SSH_X11'', ''RDP_DRIVE'']\<rparr>,
        (exampleClient ''v3.12'' [ok ''dev1'', ok []])
          \<lparr>calls := [\<lparr>path = ''/devices/dev1'', meth = MethodGet, jsonBody = NoPayload\<rparr>,
                      \<lparr>path = ''/devices/dev1/services/?q=service_name=svcA'',
                       meth = MethodGet, jsonBody = NoPayload\<rparr>]\<rparr>)"
proof -
  let ?d = "exampleService\<lparr>subprotocols := [''SSH_X11'', ''RDP_DRIVE'']\<rparr>"
  let ?c = "exampleClient ''v3.12'' [ok ''dev1'', ok []]"
  let ?g1 = "\<lparr>path = ''/devices/dev1'', meth = MethodGet, jsonBody = NoPayload\<rparr>"
  let ?g2 = "\<lparr>path = ''/devices/dev1/services/?q=service_name=svcA'',
              meth = MethodGet, jsonBody = NoPayload\<rparr>"
  have h: "expectedSubProtocolsError ?d
             = Some (ErrorMsg ''subprotocols RDP_DRIVE not valid for SSH service'')"
    by (simp add: expectedSubProtocolsError_def exampleService_def sshSubProtocolsValid_def)
  have v: "bastionAPIVersion ?c \<in> set (defaultVersionsValid exampleDeps)"
    by (simp add: exampleClient_def exampleDeps_def)
  have dev: "readDeviceOptions exampleDeps ?c (device_id ?d) = (Inr ''dev1'', ?c\<lparr>calls := [?g1]\<rparr>)"
    by (simp add: readDeviceOptions_def newRequest_eq exampleClient_def scripted_def
          exampleDeps_def exampleService_def ok_def)
  have se: "searchResourceDeviceService exampleDeps (?c\<lparr>calls := [?g1]\<rparr>)
              (device_id ?d) (service_name ?d) = (Inr ([], False), ?c\<lparr>calls := [?g1, ?g2]\<rparr>)"
    by (simp add: searchResourceDeviceService_def newRequest_eq exampleClient_def scripted_def
          exampleDeps_def exampleService_def ok_def)
  have ne: "''dev1'' \<noteq> []"
    by simp
  note r = create_rejects_invalid_subprotocols [OF h, THEN conjunct2, THEN conjunct2,
             THEN conjunct2, rule_format, OF v dev ne se]
  show ?thesis
    by (rule conjI [OF h conjunct1 [OF r]])
qed

text \<open>
  C3 as stated fails: under protocol RDP with the SSH token \<open>SSH_X11\<close>, the create is
  rejected only after two requests have been issued; and under protocol VNC the error
  names the protocol and no token.
\<close>

theorem create_validation_after_lookups_counterexample:
  "fst (resourceDeviceServiceCreate exampleDeps (exampleClient ''v3.12'' [ok ''dev1'', ok []])
          (exampleService\<lparr>protocol := ''RDP''\<rparr>))
     = Some (ErrorMsg ''subprotocols SSH_X11 not valid for RDP service'')
   \<and> calls (snd (snd (resourceDeviceServiceCreate exampleDeps
             (exampleClient ''v3.12'' [ok ''dev1'', ok []])
             (exampleService\<lparr>protocol := ''RDP''\<rparr>))))
     = [\<lparr>path = ''/devices/dev1'', meth = MethodGet, jsonBody = NoPayload\<rparr>,
        \<lparr>path = ''/devices/dev1/services/?q=service_name=svcA'',
         meth = MethodGet, jsonBody = NoPayload\<rparr>]
   \<and> prepareDeviceServiceJSON (exampleService\<lparr>protocol := ''VNC''\<rparr>) True
     = Inl (ErrorMsg ''subprotocols need to not set for VNC service'')"
  by (simp add: resourceDeviceServiceCreate_def resourceDeviceServiceVersionCheck_def
        readDeviceOptions_def searchResourceDeviceService_def addDeviceService_def
        prepareDeviceServiceJSON_def newRequest_eq exampleClient_def scripted_def
        exampleDeps_def exampleService_def ok_def rdpSubProtocolsValid_def Let_def)

section \<open>The wire payload of an update\<close>

lemma updateDeviceService_calls:
  assumes "prepareDeviceServiceJSON d False = Inr j"
  shows "calls (snd (updateDeviceService L c d)) = calls c @
           [\<lparr>path = ''/devices/'' @ device_id d @ ''/services/'' @ dsId d @ ''?force=true'',
             meth = MethodPut, jsonBody = DeviceServicePayload j\<rparr>]"
  using assms
  by (simp add: updateDeviceService_def newRequest_eq split: option.splits)

text \<open>
  C4, as the code has it. When the translation for an update succeeds with payload
  \<open>j\<close>, the update sends \<open>j\<close> in its one \<open>PUT\<close> request, and the keys written for
  \<open>j\<close> are: \<open>port\<close> and \<open>connection_policy\<close> always, with the declared values,
  changed or not; \<open>global_domains\<close> exactly when that attribute has changed;
  \<open>subprotocols\<close> exactly when the declared set is non-empty, changed or not; and never
  \<open>id\<close>, \<open>protocol\<close> or \<open>service_name\<close>.
\<close>

theorem update_payload_fields:
  assumes "prepareDeviceServiceJSON d False = Inr j"
  shows "wireFields j =
           [''port'', ''connection_policy'']
           @ (if HasChange d ''global_domains'' then [''global_domains''] else [])
           @ (if subprotocols d = [] then [] else [''subprotocols''])
       \<and> Port j = port d \<and> ConnectionPolicy j = connection_policy d
       \<and> calls (snd (updateDeviceService L c d)) = calls c @
           [\<lparr>path = ''/devices/'' @ device_id d @ ''/services/'' @ dsId d @ ''?force=true'',
             meth = MethodPut, jsonBody = DeviceServicePayload j\<rparr>]"
proof -
  from assms have "wireFields j =
           [''port'', ''connection_policy'']
           @ (if HasChange d ''global_domains'' then [''global_domains''] else [])
           @ (if subprotocols d = [] then [] else [''subprotocols''])"
    by (auto simp: prepareDeviceServiceJSON_def Let_def wireFields_def zeroDeviceService_def
             split: if_splits sum.splits)
  moreover from assms have "Port j = port d \<and> ConnectionPolicy j = connection_policy d"
    by (auto simp: prepareDeviceServiceJSON_def Let_def zeroDeviceService_def
             split: if_splits sum.splits)
  ultimately show ?thesis
    using updateDeviceService_calls [OF assms] by simp
qed

theorem update_payload_fields_witness:
  "prepareDeviceServiceJSON (exampleService\<lparr>changedKeys := [''global_domains'']\<rparr>) False
     = Inr \<lparr>Port = 22, ID = [], ConnectionPolicy = ''SSH'', Protocol = [], ServiceName = [],
            GlobalDomains = Some [], SubProtocols = Some [''SSH_X11'']\<rparr>
   \<and> wireFields \<lparr>Port = 22, ID = [], ConnectionPolicy = ''SSH'', Protocol = [],
                  ServiceName = [], GlobalDomains = Some [], SubProtocols = Some [''SSH_X11'']\<rparr>
     = [''port'', ''connection_policy'', ''global_domains'', ''subprotocols'']"
proof -
  let ?d = "exampleService\<lparr>changedKeys := [''global_domains'']\<rparr>"
  let ?j = "\<lparr>Port = 22, ID = [], ConnectionPolicy = ''SSH'', Protocol = [], ServiceName = [],
             GlobalDomains = Some [], SubProtocols = Some [''SSH_X11'']\<rparr>"
  have h: "prepareDeviceServiceJSON ?d False = Inr ?j"
    by (simp add: prepareDeviceServiceJSON_def Let_def exampleService_def HasChange_def
          zeroDeviceService_def sshSubProtocolsValid_def)
  have "wireFields ?j = [''port'', ''connection_policy'', ''global_domains'', ''subprotocols'']"
    using update_payload_fields [OF h, THEN conjunct1]
    by (simp add: HasChange_def exampleService_def)
  with h show ?thesis by (rule conjI)
qed

text \<open>
  C4 as stated fails: the operator changed \<open>port\<close> only, and the update sends
  \<open>connection_policy\<close> and \<open>subprotocols\<close> as well.
\<close>

theorem update_sends_unchanged_fields_counterexample:
  "changedKeys exampleService = [''port'']
   \<and> calls (snd (updateDeviceService exampleDeps (exampleClient ''v3.12'' [ok []])
                   exampleService))
     = [\<lparr>path = ''/devices/dev1/services/s1?force=true'', meth = MethodPut,
         jsonBody = DeviceServicePayload
           \<lparr>Port = 22, ID = [], ConnectionPolicy = ''SSH'', Protocol = [], ServiceName = [],
            GlobalDomains = None, SubProtocols = Some [''SSH_X11'']\<rparr>\<rparr>]
   \<and> wireFields \<lparr>Port = 22, ID = [], ConnectionPolicy = ''SSH'', Protocol = [],
                  ServiceName = [], GlobalDomains = None, SubProtocols = Some [''SSH_X11'']\<rparr>
     = [''port'', ''connection_policy'', ''subprotocols'']"
  by (simp add: updateDeviceService_def prepareDeviceServiceJSON_def Let_def HasChange_def
        wireFields_def newRequest_eq exampleClient_def scripted_def exampleService_def
        zeroDeviceService_def sshSubProtocolsValid_def ok_def)

section \<open>Drift detection of the x509 configuration\<close>

text \<open>\<open>strings_Contains s sub\<close> holds exactly when \<open>sub\<close> occurs in \<open>s\<close>.\<close>

lemma strings_Contains_iff: "strings_Contains s sub \<longleftrightarrow> (\<exists>p q. s = p @ sub @ q)"
proof (induction s)
  case Nil
  then show ?case by simp
next
  case (Cons x xs)
  have "(\<exists>p q. x # xs = p @ sub @ q) \<longleftrightarrow> prefix sub (x # xs) \<or> (\<exists>p q. xs = p @ sub @ q)"
  proof
    assume "\<exists>p q. x # xs = p @ sub @ q"
    then obtain p q where e: "x # xs = p @ sub @ q" by blast
    show "prefix sub (x # xs) \<or> (\<exists>p q. xs = p @ sub @ q)"
    proof (cases p)
      case Nil
      with e show ?thesis by (auto simp: prefix_def)
    next
      case (Cons y ys)
      with e have "xs = ys @ sub @ q" by simp
      then show ?thesis by blast
    qed
  next
    assume "prefix sub (x # xs) \<or> (\<exists>p q. xs = p @ sub @ q)"
    then show "\<exists>p q. x # xs = p @ sub @ q"
    proof
      assume "prefix sub (x # xs)"
      then obtain q where "x # xs = sub @ q" by (auto simp: prefix_def)
      then have "x # xs = [] @ sub @ q" by simp
      then show ?thesis by blast
    next
      assume "\<exists>p q. xs = p @ sub @ q"
      then obtain p q where "xs = p @ sub @ q" by blast
      then have "x # xs = (x # p) @ sub @ q" by simp
      then show ?thesis by blast
    qed
  qed
  with Cons.IH show ?case by simp
qed

lemma readConfigX509Options_calls:
  "readConfigX509Options L c = (r, c') \<Longrightarrow>
     calls c' = calls c @ [\<lparr>path = ''/config/x509'', meth = MethodGet, jsonBody = NoPayload\<rparr>]"
  by (auto simp: readConfigX509Options_def newRequest_eq
           split: option.splits sum.splits if_splits)

text \<open>
  C5. Let the read of \<open>/config/x509\<close> succeed with a configuration that is not the
  default one, and let each declared certificate that is non-empty decode and parse, with
  subject common names \<open>cn1\<close> (\<open>ca_certificate\<close>) and \<open>cn2\<close>
  (\<open>server_public_key\<close>). Then the read returns no error and issues the one \<open>GET\<close>
  and nothing else (no remote delete); the check of a certificate field that is empty is
  skipped; the resource is still declared (identity kept, \<open>enable\<close> refreshed) when
  the observed value of every non-empty field contains \<open>/CN=\<close> followed by its common
  name; and the tracked identity is cleared when the observed value of a non-empty field
  does not contain that substring.
\<close>

theorem x509_read_common_name_drift:
  assumes "readConfigX509Options L c = (Inr cfg, c')" and "\<not> Default cfg"
    and "ca_certificate d \<noteq> [] \<Longrightarrow>
           pemDecode L (ca_certificate d) = Some b1
           \<and> parseCertificateCommonName L b1 = Inr cn1"
    and "server_public_key d \<noteq> [] \<Longrightarrow>
           pemDecode L (server_public_key d) = Some b2
           \<and> parseCertificateCommonName L b2 = Inr cn2"
  shows "resourceConfigX509Read L c d =
           (None,
            (if (ca_certificate d = []
                   \<or> strings_Contains (CaCertificate cfg) (''/CN='' @ cn1))
                \<and> (server_public_key d = []
                   \<or> strings_Contains (ServerPublicKey cfg) (''/CN='' @ cn2))
             then d\<lparr>enable := Enable cfg\<rparr> else d\<lparr>xId := []\<rparr>),
            c')
       \<and> calls c' = calls c @
           [\<lparr>path = ''/config/x509'', meth = MethodGet, jsonBody = NoPayload\<rparr>]"
proof
  have tail: "resourceConfigX509Read_serverPublicKey L c' d cfg =
      (None,
       (if server_public_key d = [] \<or> strings_Contains (ServerPublicKey cfg) (''/CN='' @ cn2)
        then d\<lparr>enable := Enable cfg\<rparr> else d\<lparr>xId := []\<rparr>), c')"
    using assms(4)
    by (cases "server_public_key d = []")
       (simp_all add: resourceConfigX509Read_serverPublicKey_def fillConfigX509_def)
  show "resourceConfigX509Read L c d =
           (None,
            (if (ca_certificate d = []
                   \<or> strings_Contains (CaCertificate cfg) (''/CN='' @ cn1))
                \<and> (server_public_key d = []
                   \<or> strings_Contains (ServerPublicKey cfg) (''/CN='' @ cn2))
             then d\<lparr>enable := Enable cfg\<rparr> else d\<lparr>xId := []\<rparr>),
            c')"
    using assms(1,2,3) tail
    by (cases "ca_certificate d = []") (simp_all add: resourceConfigX509Read_def)
  show "calls c' = calls c @
           [\<lparr>path = ''/config/x509'', meth = MethodGet, jsonBody = NoPayload\<rparr>]"
    by (rule readConfigX509Options_calls [OF assms(1)])
qed

theorem x509_read_common_name_drift_witness:
  "resourceConfigX509Read exampleDeps (exampleClient ''v3.12'' [ok ''/O=Acme/CN=example.com''])
       exampleX509
     = (None, exampleX509,
        (exampleClient ''v3.12'' [ok ''/O=Acme/CN=example.com''])
          \<lparr>calls := [\<lparr>path = ''/config/x509'', meth = MethodGet, jsonBody = NoPayload\<rparr>]\<rparr>)
   \<and> resourceConfigX509Read exampleDeps (exampleClient ''v3.12'' [ok ''/O=Acme/CN=example.com''])
       (exampleX509\<lparr>ca_certificate := ''-----BEGIN other.com''\<rparr>)
     = (None, exampleX509\<lparr>ca_certificate := ''-----BEGIN other.com'', xId := []\<rparr>,
        (exampleClient ''v3.12'' [ok ''/O=Acme/CN=example.com''])
          \<lparr>calls := [\<lparr>path = ''/config/x509'', meth = MethodGet, jsonBody = NoPayload\<rparr>]\<rparr>)"
proof -
  let ?c = "exampleClient ''v3.12'' [ok ''/O=Acme/CN=example.com'']"
  let ?c' = "?c\<lparr>calls := [\<lparr>path = ''/config/x509'', meth = MethodGet, jsonBody = NoPayload\<rparr>]\<rparr>"
  let ?cfg = "zeroConfigX509\<lparr>CaCertificate := ''/O=Acme/CN=example.com'',
                ServerPublicKey := ''/O=Acme/CN=example.com''\<rparr>"
  let ?d2 = "exampleX509\<lparr>ca_certificate := ''-----BEGIN other.com''\<rparr>"
  have rd: "readConfigX509Options exampleDeps ?c = (Inr ?cfg, ?c')"
    by (simp add: readConfigX509Options_def newRequest_eq exampleClient_def scripted_def
          exampleDeps_def ok_def)
  have nd: "\<not> Default ?cfg"
    by (simp add: zeroConfigX509_def)
  have ca1: "ca_certificate exampleX509 \<noteq> [] \<Longrightarrow>
           pemDecode exampleDeps (ca_certificate exampleX509) = Some []
           \<and> parseCertificateCommonName exampleDeps [] = Inr []"
    by (simp add: exampleX509_def)
  have ca2: "ca_certificate ?d2 \<noteq> [] \<Longrightarrow>
           pemDecode exampleDeps (ca_certificate ?d2) = Some ''other.com''
           \<and> parseCertificateCommonName exampleDeps ''other.com'' = Inr ''other.com''"
    by (simp add: exampleDeps_def)
  have spk: "server_public_key d \<noteq> [] \<Longrightarrow>
           pemDecode exampleDeps (server_public_key d) = Some ''example.com''
           \<and> parseCertificateCommonName exampleDeps ''example.com'' = Inr ''example.com''"
    if "d = exampleX509 \<or> d = ?d2" for d
    using that by (auto simp: exampleDeps_def exampleX509_def)
  have s1: "resourceConfigX509Read exampleDeps ?c exampleX509 = (None, exampleX509, ?c')"
    using x509_read_common_name_drift [OF rd nd ca1 spk, THEN conjunct1]
    by (simp add: exampleX509_def zeroConfigX509_def)
  have s2: "resourceConfigX509Read exampleDeps ?c ?d2 = (None, ?d2\<lparr>xId := []\<rparr>, ?c')"
    using x509_read_common_name_drift [OF rd nd ca2 spk, THEN conjunct1]
    by (simp add: exampleX509_def zeroConfigX509_def)
  from s1 s2 show ?thesis by (rule conjI)
qed

section \<open>Certificates that are not PEM\<close>

text \<open>
  C9. Let the read of \<open>/config/x509\<close> succeed with a configuration that is not the
  default one. If the declared \<open>ca_certificate\<close> is non-empty and \<open>pem.Decode\<close>
  finds no block in it, the read panics with a nil-pointer dereference; and so it does
  if the declared \<open>server_public_key\<close> is non-empty without a block, once the
  \<open>ca_certificate\<close> block has been passed (the field empty, or its common name found
  in the observed value). No error is returned in either case.
\<close>

theorem x509_read_invalid_pem_panics:
  assumes "readConfigX509Options L c = (Inr cfg, c')" and "\<not> Default cfg"
  shows "(ca_certificate d \<noteq> [] \<and> pemDecode L (ca_certificate d) = None \<longrightarrow>
            resourceConfigX509Read L c d = (Some NilPointerPanic, d, c'))
       \<and> (server_public_key d \<noteq> [] \<and> pemDecode L (server_public_key d) = None
          \<and> (ca_certificate d = []
             \<or> (\<exists>b cn. pemDecode L (ca_certificate d) = Some b
                  \<and> parseCertificateCommonName L b = Inr cn
                  \<and> strings_Contains (CaCertificate cfg) (''/CN='' @ cn))) \<longrightarrow>
            resourceConfigX509Read L c d = (Some NilPointerPanic, d, c'))"
proof (intro conjI impI)
  assume "ca_certificate d \<noteq> [] \<and> pemDecode L (ca_certificate d) = None"
  with assms show "resourceConfigX509Read L c d = (Some NilPointerPanic, d, c')"
    by (simp add: resourceConfigX509Read_def)
next
  assume h: "server_public_key d \<noteq> [] \<and> pemDecode L (server_public_key d) = None
          \<and> (ca_certificate d = []
             \<or> (\<exists>b cn. pemDecode L (ca_certificate d) = Some b
                  \<and> parseCertificateCommonName L b = Inr cn
                  \<and> strings_Contains (CaCertificate cfg) (''/CN='' @ cn)))"
  then have tail: "resourceConfigX509Read_serverPublicKey L c' d cfg
                     = (Some NilPointerPanic, d, c')"
    by (simp add: resourceConfigX509Read_serverPublicKey_def)
  from h assms tail show "resourceConfigX509Read L c d = (Some NilPointerPanic, d, c')"
    by (auto simp: resourceConfigX509Read_def)
qed

theorem x509_read_invalid_pem_panics_witness:
  "fst (resourceConfigX509Read exampleDeps (exampleClient ''v3.12'' [ok ''/CN=example.com''])
          (exampleX509\<lparr>ca_certificate := ''not a certificate''\<rparr>)) = Some NilPointerPanic
   \<and> fst (resourceConfigX509Read exampleDeps (exampleClient ''v3.12'' [notFound])
          (exampleX509\<lparr>server_public_key := ''example.com''\<rparr>)) = Some NilPointerPanic"
proof -
  let ?q = "\<lparr>path = ''/config/x509'', meth = MethodGet, jsonBody = NoPayload\<rparr>"
  let ?c1 = "exampleClient ''v3.12'' [ok ''/CN=example.com'']"
  let ?c2 = "exampleClient ''v3.12'' [notFound]"
  let ?cfg = "zeroConfigX509\<lparr>CaCertificate := ''/CN=example.com'',
                ServerPublicKey := ''/CN=example.com''\<rparr>"
  let ?d1 = "exampleX509\<lparr>ca_certificate := ''not a certificate''\<rparr>"
  let ?d2 = "exampleX509\<lparr>server_public_key := ''example.com''\<rparr>"
  have r1: "readConfigX509Options exampleDeps ?c1 = (Inr ?cfg, ?c1\<lparr>calls := [?q]\<rparr>)"
    by (simp add: readConfigX509Options_def newRequest_eq exampleClient_def scripted_def
          exampleDeps_def ok_def)
  have r2: "readConfigX509Options exampleDeps ?c2 = (Inr zeroConfigX509, ?c2\<lparr>calls := [?q]\<rparr>)"
    by (simp add: readConfigX509Options_def newRequest_eq exampleClient_def scripted_def
          notFound_def)
  have n1: "\<not> Default ?cfg" and n2: "\<not> Default zeroConfigX509"
    by (simp_all add: zeroConfigX509_def)
  have p1: "ca_certificate ?d1 \<noteq> [] \<and> pemDecode exampleDeps (ca_certificate ?d1) = None"
    by (simp add: exampleDeps_def)
  have p2: "server_public_key ?d2 \<noteq> [] \<and> pemDecode exampleDeps (server_public_key ?d2) = None
          \<and> (ca_certificate ?d2 = []
             \<or> (\<exists>b cn. pemDecode exampleDeps (ca_certificate ?d2) = Some b
                  \<and> parseCertificateCommonName exampleDeps b = Inr cn
                  \<and> strings_Contains (CaCertificate zeroConfigX509) (''/CN='' @ cn)))"
    by (simp add: exampleDeps_def exampleX509_def)
  from x509_read_invalid_pem_panics [OF r1 n1, THEN conjunct1, rule_format, OF p1]
       x509_read_invalid_pem_panics [OF r2 n2, THEN conjunct2, rule_format, OF p2]
  show ?thesis by simp
qed

section \<open>Identity recovery on create\<close>

text \<open>
  The create call succeeds when the payload is accepted by the translation and the
  \<open>POST\<close> is answered with status 200 or 204; the device exists when its lookup is
  answered with status 200 and a non-empty identifier.
\<close>

lemma addDeviceService_success:
  assumes "prepareDeviceServiceJSON d True = Inr j"
    and "newRequest c (''/devices/'' @ device_id d @ ''/services/'') MethodPost
           (DeviceServicePayload j) = (r, c')"
    and "err r = None" and "code r = 200 \<or> code r = 204"
  shows "addDeviceService L c d = (None, c')"
  using assms by (auto simp: addDeviceService_def)

lemma readDeviceOptions_success:
  assumes "newRequest c (''/devices/'' @ deviceID) MethodGet NoPayload = (r, c')"
    and "err r = None" and "code r = 200" and "unmarshalDeviceID L (body r) = Inr i"
  shows "readDeviceOptions L c deviceID = (Inr i, c')"
  using assms by (simp add: readDeviceOptions_def)

lemma resourceDeviceServiceRead_found:
  assumes "bastionAPIVersion c \<in> set (defaultVersionsValid L)"
    and "readDeviceServiceOptions L c (device_id d) (dsId d) = (Inr cfg, c')"
    and "ID cfg \<noteq> []"
  shows "resourceDeviceServiceRead L c d = (None, fillDeviceService d cfg, c')"
  using assms
  by (simp add: resourceDeviceServiceRead_def resourceDeviceServiceVersionCheck_def)

lemma newRequest_version:
  "newRequest c p m j = (r, c') \<Longrightarrow> bastionAPIVersion c' = bastionAPIVersion c"
  by (auto simp: newRequest_eq)

lemma addDeviceService_version:
  "addDeviceService L c d = (r, c') \<Longrightarrow> bastionAPIVersion c' = bastionAPIVersion c"
  by (auto simp: addDeviceService_def newRequest_eq split: sum.splits option.splits if_splits)

lemma readDeviceOptions_version:
  "readDeviceOptions L c x = (r, c') \<Longrightarrow> bastionAPIVersion c' = bastionAPIVersion c"
  by (auto simp: readDeviceOptions_def newRequest_eq split: sum.splits option.splits if_splits)

text \<open>
  C6. Let the version gate pass, the device exist, and the pre-create query be answered
  with status 200 and a listing \<open>pre\<close>.
  \<^item> If \<open>pre\<close> holds exactly one match, the create fails with the "already exists"
    error, and the requests issued are the two lookups: the create call is never sent.
  \<^item> Otherwise, let the create call succeed and the post-create query be answered with
    status 200 and a listing \<open>post\<close>. If \<open>post\<close> is empty, the create fails with the
    "not found after POST" error. If \<open>post\<close> is the single match \<open>m\<close>, the tracked
    identity is set to the identifier of \<open>m\<close> and the create ends with the read of
    that resource; when this read finds it, the create succeeds with the identifier of
    \<open>m\<close> as tracked identity.
\<close>

theorem create_identity_recovery:
  assumes "bastionAPIVersion c \<in> set (defaultVersionsValid L)"
    and "readDeviceOptions L c (device_id d) = (Inr devID, c1)" and "devID \<noteq> []"
    and "newRequest c1
           (''/devices/'' @ device_id d @ ''/services/?q=service_name='' @ service_name d)
           MethodGet NoPayload = (r2, c2)"
    and "err r2 = None" and "code r2 = 200"
    and "unmarshalDeviceServices L (body r2) = Inr pre"
  shows "(length pre = 1 \<longrightarrow>
            resourceDeviceServiceCreate L c d =
              (Some (ErrorMsg (''service_name '' @ service_name d @ '' on device_id ''
                                 @ device_id d @ '' already exists'')), d, c2)
            \<and> calls c2 = calls c @
                 [\<lparr>path = ''/devices/'' @ device_id d, meth = MethodGet,
                   jsonBody = NoPayload\<rparr>,
                  \<lparr>path = ''/devices/'' @ device_id d @ ''/services/?q=service_name=''
                            @ service_name d,
                   meth = MethodGet, jsonBody = NoPayload\<rparr>])
       \<and> (length pre \<noteq> 1 \<longrightarrow> addDeviceService L c2 d = (None, c3) \<longrightarrow>
          newRequest c3
            (''/devices/'' @ device_id d @ ''/services/?q=service_name='' @ service_name d)
            MethodGet NoPayload = (r4, c4) \<longrightarrow>
          err r4 = None \<longrightarrow> code r4 = 200 \<longrightarrow>
          unmarshalDeviceServices L (body r4) = Inr post \<longrightarrow>
            (post = [] \<longrightarrow>
               resourceDeviceServiceCreate L c d =
                 (Some (ErrorMsg (''service_name '' @ service_name d @ '' on device_id ''
                                    @ device_id d @ '' not found after POST'')), d, c4))
          \<and> (\<forall>m. post = [m] \<longrightarrow>
                 resourceDeviceServiceCreate L c d
                   = resourceDeviceServiceRead L c4 (d\<lparr>dsId := ID m\<rparr>)
               \<and> (\<forall>cfg c5.
                    readDeviceServiceOptions L c4 (device_id d) (ID m) = (Inr cfg, c5) \<longrightarrow>
                    ID cfg \<noteq> [] \<longrightarrow>
                      resourceDeviceServiceCreate L c d
                        = (None, fillDeviceService (d\<lparr>dsId := ID m\<rparr>) cfg, c5)
                    \<and> dsId (fillDeviceService (d\<lparr>dsId := ID m\<rparr>) cfg) = ID m)))"
proof (intro conjI impI allI)
  note pre = searchResourceDeviceService_answer [OF assms(4,5,6,7)]
  have gate: "resourceDeviceServiceVersionCheck L (bastionAPIVersion c) = None"
    using assms(1) by (simp add: resourceDeviceServiceVersionCheck_def)
  {
    assume one: "length pre = 1"
    then obtain x where "pre = [x]"
      by (cases pre) auto
    with pre gate assms(2,3)
    show "resourceDeviceServiceCreate L c d =
              (Some (ErrorMsg (''service_name '' @ service_name d @ '' on device_id ''
                                 @ device_id d @ '' already exists'')), d, c2)"
      by (simp add: resourceDeviceServiceCreate_def)
    show "calls c2 = calls c @
                 [\<lparr>path = ''/devices/'' @ device_id d, meth = MethodGet,
                   jsonBody = NoPayload\<rparr>,
                  \<lparr>path = ''/devices/'' @ device_id d @ ''/services/?q=service_name=''
                            @ service_name d,
                   meth = MethodGet, jsonBody = NoPayload\<rparr>]"
      using readDeviceOptions_calls [OF assms(2)] assms(4)
      by (auto simp: newRequest_eq)
  }
  assume many: "length pre \<noteq> 1"
    and add: "addDeviceService L c2 d = (None, c3)"
    and q: "newRequest c3
            (''/devices/'' @ device_id d @ ''/services/?q=service_name='' @ service_name d)
            MethodGet NoPayload = (r4, c4)"
    and ok: "err r4 = None" "code r4 = 200"
    and un: "unmarshalDeviceServices L (body r4) = Inr post"
  from many have pre': "searchResourceDeviceService L c1 (device_id d) (service_name d)
                          = (Inr ([], False), c2)"
    using pre by (simp split: list.splits)
  note post = searchResourceDeviceService_answer [OF q ok un]
  have upto: "resourceDeviceServiceCreate L c d =
      (case searchResourceDeviceService L c3 (device_id d) (service_name d) of
         (Inl e, c4) \<Rightarrow> (Some e, d, c4)
       | (Inr (i, ex'), c4) \<Rightarrow>
           if \<not> ex'
             then (Some (ErrorMsg (''service_name '' @ service_name d @ '' on device_id ''
                                     @ device_id d @ '' not found after POST'')), d, c4)
           else resourceDeviceServiceRead L c4 (d\<lparr>dsId := i\<rparr>))"
    using gate assms(2,3) pre' add by (simp add: resourceDeviceServiceCreate_def)
  {
    assume "post = []"
    with upto post
    show "resourceDeviceServiceCreate L c d =
                 (Some (ErrorMsg (''service_name '' @ service_name d @ '' on device_id ''
                                    @ device_id d @ '' not found after POST'')), d, c4)"
      by simp
  }
  fix m
  assume m: "post = [m]"
  with upto post
  show rd: "resourceDeviceServiceCreate L c d
              = resourceDeviceServiceRead L c4 (d\<lparr>dsId := ID m\<rparr>)"
    by simp
  fix cfg c5
  assume fetch: "readDeviceServiceOptions L c4 (device_id d) (ID m) = (Inr cfg, c5)"
    and found: "ID cfg \<noteq> []"
  have v4: "bastionAPIVersion c4 \<in> set (defaultVersionsValid L)"
    using assms(1) readDeviceOptions_version [OF assms(2)] newRequest_version [OF assms(4)]
      addDeviceService_version [OF add] newRequest_version [OF q]
    by simp
  show "resourceDeviceServiceCreate L c d
          = (None, fillDeviceService (d\<lparr>dsId := ID m\<rparr>) cfg, c5)"
    using rd resourceDeviceServiceRead_found [OF v4, of "d\<lparr>dsId := ID m\<rparr>" cfg c5] fetch found
    by simp
  show "dsId (fillDeviceService (d\<lparr>dsId := ID m\<rparr>) cfg) = ID m"
    by (simp add: fillDeviceService_def)
qed
theorem create_identity_recovery_witness:
  "resourceDeviceServiceCreate exampleDeps (exampleClient ''v3.12'' [ok ''dev1'', ok ''s1''])
       exampleService
     = (Some (ErrorMsg ''service_name svcA on device_id dev1 already exists''), exampleService,
        (exampleClient ''v3.12'' [ok ''dev1'', ok ''s1''])
          \<lparr>calls := [\<lparr>path = ''/devices/dev1'', meth = MethodGet, jsonBody = NoPayload\<rparr>,
                      \<lparr>path = ''/devices/dev1/services/?q=service_name=svcA'',
                       meth = MethodGet, jsonBody = NoPayload\<rparr>]\<rparr>)
   \<and> fst (resourceDeviceServiceCreate exampleDeps
            (exampleClient ''v3.12'' [ok ''dev1'', ok [], ok [], ok []]) exampleService)
     = Some (ErrorMsg ''service_name svcA on device_id dev1 not found after POST'')
   \<and> fst (resourceDeviceServiceCreate exampleDeps
            (exampleClient ''v3.12'' [ok ''dev1'', ok [], ok [], ok ''s9'', ok ''s9''])
            exampleService) = None
   \<and> dsId (fst (snd (resourceDeviceServiceCreate exampleDeps
            (exampleClient ''v3.12'' [ok ''dev1'', ok [], ok [], ok ''s9'', ok ''s9''])
            exampleService))) = ''s9''"
proof -
  let ?g1 = "\<lparr>path = ''/devices/dev1'', meth = MethodGet, jsonBody = NoPayload\<rparr>"
  let ?g2 = "\<lparr>path = ''/devices/dev1/services/?q=service_name=svcA'',
              meth = MethodGet, jsonBody = NoPayload\<rparr>"
  let ?j = "\<lparr>Port = 22, ID = [], ConnectionPolicy = ''SSH'', Protocol = ''SSH'',
             ServiceName = ''svcA'', GlobalDomains = None, SubProtocols = Some [''SSH_X11'']\<rparr>"
  let ?p3 = "\<lparr>path = ''/devices/dev1/services/'', meth = MethodPost,
              jsonBody = DeviceServicePayload ?j\<rparr>"
  let ?g5 = "\<lparr>path = ''/devices/dev1/services/s9'', meth = MethodGet, jsonBody = NoPayload\<rparr>"
  let ?sp = "''/devices/'' @ device_id exampleService @ ''/services/?q=service_name=''
               @ service_name exampleService"
  define c where "c rs = exampleClient ''v3.12'' (ok ''dev1'' # rs)" for rs
  have v: "bastionAPIVersion (c rs) \<in> set (defaultVersionsValid exampleDeps)" for rs
    by (simp add: c_def exampleClient_def exampleDeps_def)
  have dev: "readDeviceOptions exampleDeps (c rs) (device_id exampleService)
               = (Inr ''dev1'', c rs\<lparr>calls := [?g1]\<rparr>)" for rs
    by (simp add: readDeviceOptions_def newRequest_eq c_def exampleClient_def scripted_def
          exampleDeps_def exampleService_def ok_def)
  have ne: "''dev1'' \<noteq> []"
    by simp
  have q2: "newRequest (c (r # rs)\<lparr>calls := [?g1]\<rparr>) ?sp MethodGet NoPayload
              = (r, c (r # rs)\<lparr>calls := [?g1, ?g2]\<rparr>)" for r rs
    by (simp add: newRequest_eq c_def exampleClient_def scripted_def exampleService_def)
  have e: "err (ok b) = None" and k: "code (ok b) = 200" for b
    by (simp_all add: ok_def)
  have u0: "unmarshalDeviceServices exampleDeps (body (ok [])) = Inr []"
    by (simp add: exampleDeps_def ok_def)
  have u1: "unmarshalDeviceServices exampleDeps (body (ok ''s1''))
              = Inr [zeroDeviceService\<lparr>ID := ''s1''\<rparr>]"
    by (simp add: exampleDeps_def ok_def)
  have u9: "unmarshalDeviceServices exampleDeps (body (ok ''s9''))
              = Inr [zeroDeviceService\<lparr>ID := ''s9''\<rparr>]"
    by (simp add: exampleDeps_def ok_def)
  have add: "addDeviceService exampleDeps (c (ok [] # ok [] # rs)\<lparr>calls := [?g1, ?g2]\<rparr>)
               exampleService
             = (None, c (ok [] # ok [] # rs)\<lparr>calls := [?g1, ?g2, ?p3]\<rparr>)" for rs
    by (simp add: addDeviceService_def prepareDeviceServiceJSON_def Let_def HasChange_def
          zeroDeviceService_def sshSubProtocolsValid_def newRequest_eq c_def exampleClient_def
          scripted_def exampleService_def ok_def)
  have q4: "newRequest (c (ok [] # ok [] # r # rs)\<lparr>calls := [?g1, ?g2, ?p3]\<rparr>) ?sp
              MethodGet NoPayload
              = (r, c (ok [] # ok [] # r # rs)\<lparr>calls := [?g1, ?g2, ?p3, ?g2]\<rparr>)" for r rs
    by (simp add: newRequest_eq c_def exampleClient_def scripted_def exampleService_def)
  have fetch: "readDeviceServiceOptions exampleDeps
                 (c [ok [], ok [], ok ''s9'', ok ''s9'']\<lparr>calls := [?g1, ?g2, ?p3, ?g2]\<rparr>)
                 (device_id exampleService) (ID (zeroDeviceService\<lparr>ID := ''s9''\<rparr>))
               = (Inr (zeroDeviceService\<lparr>ID := ''s9''\<rparr>),
                  c [ok [], ok [], ok ''s9'', ok ''s9'']
                    \<lparr>calls := [?g1, ?g2, ?p3, ?g2, ?g5]\<rparr>)"
    by (simp add: readDeviceServiceOptions_def newRequest_eq c_def exampleClient_def
          scripted_def exampleDeps_def exampleService_def ok_def)
  have l1: "length [zeroDeviceService\<lparr>ID := ''s1''\<rparr>] = 1"
    and l0: "length ([] :: jsonDeviceService list) \<noteq> 1"
    by simp_all
  have found: "ID (zeroDeviceService\<lparr>ID := ''s9''\<rparr>) \<noteq> []"
    by simp
  have s1: "resourceDeviceServiceCreate exampleDeps (c [ok ''s1'']) exampleService
     = (Some (ErrorMsg ''service_name svcA on device_id dev1 already exists''), exampleService,
        c [ok ''s1'']\<lparr>calls := [?g1, ?g2]\<rparr>)"
    using create_identity_recovery [OF v dev ne q2 e k u1, THEN conjunct1, rule_format, OF l1,
            THEN conjunct1]
    by (simp add: exampleService_def)
  have s2: "fst (resourceDeviceServiceCreate exampleDeps (c [ok [], ok [], ok []])
              exampleService)
     = Some (ErrorMsg ''service_name svcA on device_id dev1 not found after POST'')"
    using create_identity_recovery [OF v dev ne q2 e k u0, THEN conjunct2, rule_format,
            OF l0 add q4 e k u0, THEN conjunct1, rule_format, OF refl]
    by (simp add: exampleService_def)
  note s3 = create_identity_recovery [OF v dev ne q2 e k u0, THEN conjunct2, rule_format,
            OF l0 add q4 e k u9, THEN conjunct2, rule_format, OF refl, THEN conjunct2,
            rule_format, OF fetch found]
  have s3a: "fst (resourceDeviceServiceCreate exampleDeps
               (c [ok [], ok [], ok ''s9'', ok ''s9'']) exampleService) = None"
    using s3 [THEN conjunct1] by simp
  have s3b: "dsId (fst (snd (resourceDeviceServiceCreate exampleDeps
               (c [ok [], ok [], ok ''s9'', ok ''s9'']) exampleService))) = ''s9''"
    using s3 by simp
  from s1 s2 s3a s3b show ?thesis
    unfolding c_def by (intro conjI)
qed

section \<open>Import from a composite key\<close>

lemma strings_Split_not_Nil: "strings_Split s sep \<noteq> []"
  by (induction s) (simp_all split: list.splits)

lemma strings_Split_length: "length (strings_Split s sep) = Suc (count_list s sep)"
proof (induction s)
  case Nil
  then show ?case by simp
next
  case (Cons x xs)
  obtain w ws where "strings_Split xs sep = w # ws"
    using strings_Split_not_Nil [of xs sep] by (cases "strings_Split xs sep") auto
  with Cons.IH show ?case by auto
qed

lemma strings_Split_no_sep: "sep \<notin> set s \<Longrightarrow> strings_Split s sep = [s]"
  by (induction s) auto

lemma strings_Split_two:
  assumes "sep \<notin> set p" and "sep \<notin> set n"
  shows "strings_Split (p @ sep # n) sep = [p, n]"
  using assms by (induction p) (auto simp: strings_Split_no_sep)

text \<open>
  C7. With a supported API version: an identifier in which the number of \<open>/\<close> is not
  one (none, or more than one) fails with the error naming the format
  \<open><device_id>/<service_name>\<close>, and no request is issued; an identifier \<open>p/n\<close> is
  resolved with parent \<open>p\<close> and natural key \<open>n\<close>, the import fails with the
  resolver's error when the resolution fails, with an error naming the identifier and
  the expected format when nothing is found, and otherwise reads the resource and
  returns it with the resolved identifier and \<open>device_id = p\<close>.
\<close>

theorem import_composite_key:
  assumes "bastionAPIVersion c \<in> set (defaultVersionsValid L)"
  shows "(count_list (dsId d) (CHR ''/'') \<noteq> 1 \<longrightarrow>
            resourceDeviceServiceImport L c d
              = (Inl (ErrorMsg ''id must be <device_id>/<service_name>''), c))
       \<and> (dsId d = p @ ''/'' @ n \<and> CHR ''/'' \<notin> set p \<and> CHR ''/'' \<notin> set n \<longrightarrow>
            resourceDeviceServiceImport L c d
              = (case searchResourceDeviceService L c p n of
                   (Inl e, c1) \<Rightarrow> (Inl e, c1)
                 | (Inr (i, ex), c1) \<Rightarrow>
                     if \<not> ex
                       then (Inl (ErrorMsg (''don't find service_name with id '' @ dsId d
                                @ '' (id must be <device_id>/<service_name>)'')), c1)
                     else (case readDeviceServiceOptions L c1 p i of
                             (Inl e, c2) \<Rightarrow> (Inl e, c2)
                           | (Inr cfg, c2) \<Rightarrow>
                               (Inr [(fillDeviceService d cfg)\<lparr>dsId := i, device_id := p\<rparr>],
                                c2))))"
proof (intro conjI impI)
  have gate: "resourceDeviceServiceVersionCheck L (bastionAPIVersion c) = None"
    using assms by (simp add: resourceDeviceServiceVersionCheck_def)
  {
    assume "count_list (dsId d) (CHR ''/'') \<noteq> 1"
    then have "length (strings_Split (dsId d) (CHR ''/'')) \<noteq> 2"
      by (simp add: strings_Split_length)
    then have "\<nexists>a b. strings_Split (dsId d) (CHR ''/'') = [a, b]"
      by auto
    with gate show "resourceDeviceServiceImport L c d
              = (Inl (ErrorMsg ''id must be <device_id>/<service_name>''), c)"
      by (auto simp: resourceDeviceServiceImport_def split: list.splits)
  }
  assume "dsId d = p @ ''/'' @ n \<and> CHR ''/'' \<notin> set p \<and> CHR ''/'' \<notin> set n"
  then have "strings_Split (dsId d) (CHR ''/'') = [p, n]"
    using strings_Split_two [of "CHR ''/''" p n] by simp
  with gate show "resourceDeviceServiceImport L c d
              = (case searchResourceDeviceService L c p n of
                   (Inl e, c1) \<Rightarrow> (Inl e, c1)
                 | (Inr (i, ex), c1) \<Rightarrow>
                     if \<not> ex
                       then (Inl (ErrorMsg (''don't find service_name with id '' @ dsId d
                                @ '' (id must be <device_id>/<service_name>)'')), c1)
                     else (case readDeviceServiceOptions L c1 p i of
                             (Inl e, c2) \<Rightarrow> (Inl e, c2)
                           | (Inr cfg, c2) \<Rightarrow>
                               (Inr [(fillDeviceService d cfg)\<lparr>dsId := i, device_id := p\<rparr>],
                                c2)))"
    by (simp add: resourceDeviceServiceImport_def)
qed

theorem import_composite_key_witness:
  "resourceDeviceServiceImport exampleDeps (exampleClient ''v3.12'' [ok ''s9'', ok ''s9''])
       (exampleService\<lparr>dsId := ''dev123''\<rparr>)
     = (Inl (ErrorMsg ''id must be <device_id>/<service_name>''),
        exampleClient ''v3.12'' [ok ''s9'', ok ''s9''])
   \<and> resourceDeviceServiceImport exampleDeps (exampleClient ''v3.12'' [ok ''s9'', ok ''s9''])
       (exampleService\<lparr>dsId := ''dev123/svcA/extra''\<rparr>)
     = (Inl (ErrorMsg ''id must be <device_id>/<service_name>''),
        exampleClient ''v3.12'' [ok ''s9'', ok ''s9''])
   \<and> resourceDeviceServiceImport exampleDeps (exampleClient ''v3.12'' [ok ''s9'', ok ''s9''])
       (exampleService\<lparr>dsId := ''dev123/svcA''\<rparr>)
     = (Inr [(fillDeviceService exampleService (zeroDeviceService\<lparr>ID := ''s9''\<rparr>))
               \<lparr>dsId := ''s9'', device_id := ''dev123''\<rparr>],
        (exampleClient ''v3.12'' [ok ''s9'', ok ''s9''])
          \<lparr>calls := [\<lparr>path = ''/devices/dev123/services/?q=service_name=svcA'',
                       meth = MethodGet, jsonBody = NoPayload\<rparr>,
                      \<lparr>path = ''/devices/dev123/services/s9'', meth = MethodGet,
                       jsonBody = NoPayload\<rparr>]\<rparr>)
   \<and> resourceDeviceServiceImport exampleDeps (exampleClient ''v3.12'' [ok []])
       (exampleService\<lparr>dsId := ''dev123/svcA''\<rparr>)
     = (Inl (ErrorMsg
          ''don't find service_name with id dev123/svcA (id must be <device_id>/<service_name>)''),
        (exampleClient ''v3.12'' [ok []])
          \<lparr>calls := [\<lparr>path = ''/devices/dev123/services/?q=service_name=svcA'',
                       meth = MethodGet, jsonBody = NoPayload\<rparr>]\<rparr>)"
proof -
  let ?c = "exampleClient ''v3.12'' [ok ''s9'', ok ''s9'']"
  let ?cz = "exampleClient ''v3.12'' [ok []]"
  have v: "bastionAPIVersion (exampleClient ''v3.12'' rs) \<in> set (defaultVersionsValid exampleDeps)"
    for rs
    by (simp add: exampleClient_def exampleDeps_def)
  have n0: "count_list (dsId (exampleService\<lparr>dsId := ''dev123''\<rparr>)) (CHR ''/'') \<noteq> 1"
    and n2: "count_list (dsId (exampleService\<lparr>dsId := ''dev123/svcA/extra''\<rparr>)) (CHR ''/'') \<noteq> 1"
    by simp_all
  have two: "dsId (exampleService\<lparr>dsId := ''dev123/svcA''\<rparr>) = ''dev123'' @ ''/'' @ ''svcA''
               \<and> CHR ''/'' \<notin> set ''dev123'' \<and> CHR ''/'' \<notin> set ''svcA''"
    by simp
  have a: "resourceDeviceServiceImport exampleDeps ?c (exampleService\<lparr>dsId := ''dev123''\<rparr>)
             = (Inl (ErrorMsg ''id must be <device_id>/<service_name>''), ?c)"
    by (rule import_composite_key [OF v, THEN conjunct1, rule_format, OF n0])
  have b: "resourceDeviceServiceImport exampleDeps ?c
             (exampleService\<lparr>dsId := ''dev123/svcA/extra''\<rparr>)
             = (Inl (ErrorMsg ''id must be <device_id>/<service_name>''), ?c)"
    by (rule import_composite_key [OF v, THEN conjunct1, rule_format, OF n2])
  have se: "searchResourceDeviceService exampleDeps ?c ''dev123'' ''svcA''
              = (Inr (''s9'', True),
                 ?c\<lparr>calls := [\<lparr>path = ''/devices/dev123/services/?q=service_name=svcA'',
                                 meth = MethodGet, jsonBody = NoPayload\<rparr>]\<rparr>)"
    by (simp add: searchResourceDeviceService_def newRequest_eq exampleClient_def scripted_def
          exampleDeps_def ok_def)
  have se0: "searchResourceDeviceService exampleDeps ?cz ''dev123'' ''svcA''
              = (Inr ([], False),
                 ?cz\<lparr>calls := [\<lparr>path = ''/devices/dev123/services/?q=service_name=svcA'',
                                 meth = MethodGet, jsonBody = NoPayload\<rparr>]\<rparr>)"
    by (simp add: searchResourceDeviceService_def newRequest_eq exampleClient_def scripted_def
          exampleDeps_def ok_def)
  have rd: "readDeviceServiceOptions exampleDeps
              (?c\<lparr>calls := [\<lparr>path = ''/devices/dev123/services/?q=service_name=svcA'',
                             meth = MethodGet, jsonBody = NoPayload\<rparr>]\<rparr>) ''dev123'' ''s9''
              = (Inr (zeroDeviceService\<lparr>ID := ''s9''\<rparr>),
                 ?c\<lparr>calls := [\<lparr>path = ''/devices/dev123/services/?q=service_name=svcA'',
                                 meth = MethodGet, jsonBody = NoPayload\<rparr>,
                                \<lparr>path = ''/devices/dev123/services/s9'', meth = MethodGet,
                                 jsonBody = NoPayload\<rparr>]\<rparr>)"
    by (simp add: readDeviceServiceOptions_def newRequest_eq exampleClient_def scripted_def
          exampleDeps_def ok_def)
  note i1 = import_composite_key [OF v, THEN conjunct2, rule_format, OF two]
  have c: "resourceDeviceServiceImport exampleDeps ?c (exampleService\<lparr>dsId := ''dev123/svcA''\<rparr>)
     = (Inr [(fillDeviceService exampleService (zeroDeviceService\<lparr>ID := ''s9''\<rparr>))
               \<lparr>dsId := ''s9'', device_id := ''dev123''\<rparr>],
        ?c\<lparr>calls := [\<lparr>path = ''/devices/dev123/services/?q=service_name=svcA'',
                       meth = MethodGet, jsonBody = NoPayload\<rparr>,
                      \<lparr>path = ''/devices/dev123/services/s9'', meth = MethodGet,
                       jsonBody = NoPayload\<rparr>]\<rparr>)"
    using i1 [of "[ok ''s9'', ok ''s9'']"] se rd by (simp add: fillDeviceService_def)
  have d: "resourceDeviceServiceImport exampleDeps ?cz
             (exampleService\<lparr>dsId := ''dev123/svcA''\<rparr>)
     = (Inl (ErrorMsg
          ''don't find service_name with id dev123/svcA (id must be <device_id>/<service_name>)''),
        ?cz\<lparr>calls := [\<lparr>path = ''/devices/dev123/services/?q=service_name=svcA'',
                       meth = MethodGet, jsonBody = NoPayload\<rparr>]\<rparr>)"
    using i1 [of "[ok []]"] se0 by simp
  from a b c d show ?thesis by (intro conjI)
qed

section \<open>The version gate\<close>

text \<open>
  Create, read, delete and import consult \<open>resourceDeviceServiceVersionCheck\<close> first:
  at an unsupported version each fails with the error naming the device-service kind
  and the version, and the client is unchanged (no request).
\<close>

lemma version_gate_create_read_delete_import:
  assumes "bastionAPIVersion c \<notin> set (defaultVersionsValid L)"
  shows "resourceDeviceServiceCreate L c d =
           (Some (ErrorMsg (''resource wallix-bastion_device_service not available with api version ''
                              @ bastionAPIVersion c)), d, c)"
    and "resourceDeviceServiceRead L c d =
           (Some (ErrorMsg (''resource wallix-bastion_device_service not available with api version ''
                              @ bastionAPIVersion c)), d, c)"
    and "resourceDeviceServiceDelete L c d =
           (Some (ErrorMsg (''resource wallix-bastion_device_service not available with api version ''
                              @ bastionAPIVersion c)), d, c)"
    and "resourceDeviceServiceImport L c d =
           (Inl (ErrorMsg (''resource wallix-bastion_device_service not available with api version ''
                             @ bastionAPIVersion c)), c)"
  using assms
  by (simp_all add: resourceDeviceServiceCreate_def resourceDeviceServiceRead_def
        resourceDeviceServiceDelete_def resourceDeviceServiceImport_def
        resourceDeviceServiceVersionCheck_def)

lemma prepareDeviceServiceJSON_error:
  assumes "prepareDeviceServiceJSON d newResource = Inl e"
  shows "\<exists>s. e = ErrorMsg (''subprotocols '' @ s)"
proof (cases "expectedSubProtocolsError d")
  case None
  from prepareDeviceServiceJSON_accepts [OF None, of newResource] assms
  show ?thesis by auto
next
  case (Some e')
  from prepareDeviceServiceJSON_rejects [OF Some, of newResource] assms
  have "e' = e" by simp
  with Some show ?thesis
    by (auto simp: expectedSubProtocolsError_def split: if_splits)
qed

lemma updateDeviceService_outcome:
  "(\<exists>s. updateDeviceService L c d = (Some (ErrorMsg (''subprotocols '' @ s)), c))
   \<or> (\<exists>r q. updateDeviceService L c d = (r, c\<lparr>calls := calls c @ [q]\<rparr>)
            \<and> meth q = MethodPut)"
proof (cases "prepareDeviceServiceJSON d False")
  case (Inl e)
  with prepareDeviceServiceJSON_error [OF Inl] show ?thesis
    by (auto simp: updateDeviceService_def)
next
  case (Inr j)
  then show ?thesis
    by (auto simp: updateDeviceService_def newRequest_eq split: option.splits)
qed

lemma client_calls_extended: "c\<lparr>calls := calls c @ [q]\<rparr> \<noteq> c"
proof
  assume "c\<lparr>calls := calls c @ [q]\<rparr> = c"
  then have "calls (c\<lparr>calls := calls c @ [q]\<rparr>) = calls c"
    by simp
  then show False by simp
qed

text \<open>
  The update consults the gate of the device kind instead. At a version the
  device-service kind does not support, whatever the device kind supports, the update
  never ends as the gate of its own kind would: failing with that kind's error and the
  client untouched.
\<close>

lemma update_gate_not_device_service:
  assumes "bastionAPIVersion c \<notin> set (defaultVersionsValid L)"
  shows "resourceDeviceServiceUpdate L c d \<noteq>
           (Some (ErrorMsg (''resource wallix-bastion_device_service not available with api version ''
                              @ bastionAPIVersion c)), d, c)"
proof (cases "bastionAPIVersion c \<in> set (deviceVersionsValid L)")
  case False
  then show ?thesis
    by (simp add: resourceDeviceServiceUpdate_def resourceDeviceVersionCheck_def)
next
  case True
  from updateDeviceService_outcome [of L c d] show ?thesis
  proof (elim disjE exE conjE)
    fix s
    assume "updateDeviceService L c d = (Some (ErrorMsg (''subprotocols '' @ s)), c)"
    with True show ?thesis
      by (simp add: resourceDeviceServiceUpdate_def resourceDeviceVersionCheck_def)
  next
    fix r q
    assume u: "updateDeviceService L c d = (r, c\<lparr>calls := calls c @ [q]\<rparr>)"
    have v: "bastionAPIVersion (c\<lparr>calls := calls c @ [q]\<rparr>) \<notin> set (defaultVersionsValid L)"
      using assms by simp
    from True u version_gate_create_read_delete_import(2) [OF v, of d]
      client_calls_extended [of c q]
    show ?thesis
      by (cases r) (simp_all add: resourceDeviceServiceUpdate_def resourceDeviceVersionCheck_def)
  qed
qed

text \<open>
  C8 fails on the update path. The remote reports \<open>v3.10\<close> and the device-service kind
  requires \<open>v3.12\<close>: the gate of the kind would name \<open>wallix-bastion_device_service\<close>.
  The update calls the gate of the device kind: where that kind does not support
  \<open>v3.10\<close> either, the update fails with an error naming \<open>wallix-bastion_device\<close>;
  where it does, the update sends its \<open>PUT\<close> and fails only at the gate of the
  read that follows.
\<close>

theorem update_version_gate_names_device_kind:
  "resourceDeviceServiceVersionCheck exampleDeps ''v3.10''
     = Some (ErrorMsg
         ''resource wallix-bastion_device_service not available with api version v3.10'')
   \<and> resourceDeviceServiceUpdate exampleDeps (exampleClient ''v3.10'' [ok []]) exampleService
     = (Some (ErrorMsg ''resource wallix-bastion_device not available with api version v3.10''),
        exampleService, exampleClient ''v3.10'' [ok []])
   \<and> resourceDeviceServiceUpdate (exampleDeps\<lparr>deviceVersionsValid := [''v3.10'', ''v3.12'']\<rparr>)
       (exampleClient ''v3.10'' [ok []]) exampleService
     = (Some (ErrorMsg
          ''resource wallix-bastion_device_service not available with api version v3.10''),
        exampleService,
        (exampleClient ''v3.10'' [ok []])
          \<lparr>calls := [\<lparr>path = ''/devices/dev1/services/s1?force=true'', meth = MethodPut,
                       jsonBody = DeviceServicePayload
                         \<lparr>Port = 22, ID = [], ConnectionPolicy = ''SSH'', Protocol = [],
                          ServiceName = [], GlobalDomains = None,
                          SubProtocols = Some [''SSH_X11'']\<rparr>\<rparr>]\<rparr>)"
  by (simp add: resourceDeviceServiceUpdate_def resourceDeviceVersionCheck_def
        resourceDeviceServiceVersionCheck_def resourceDeviceServiceRead_def
        updateDeviceService_def prepareDeviceServiceJSON_def Let_def HasChange_def
        newRequest_eq exampleClient_def scripted_def exampleDeps_def exampleService_def
        zeroDeviceService_def sshSubProtocolsValid_def ok_def)

end
